theory Spec2Isabelle
  imports Main "HOL-Library.Sublist"
begin

section \<open>Python strings\<close>

text \<open>
  A Python \<open>str\<close> is a sequence of code points. The model uses \<open>string\<close>, whose
  characters are the 256 code points below U+0100 (Latin-1): every literal of
  \<open>app.py\<close> that the functions below use is ASCII, and the texts are arbitrary
  sequences over these code points.

  \<open>str.lower()\<close> maps each upper-case letter to its lower-case letter and leaves every
  other code point alone. Below U+0100 the upper-case letters are A..Z (65..90),
  U+00C0..U+00D6 (192..214) and U+00D8..U+00DE (216..222); each has its lower-case
  letter 32 positions later.
\<close>

definition lower_char :: "char \<Rightarrow> char" where
  "lower_char c =
     (let n = (of_char c :: nat)
      in if (65 \<le> n \<and> n \<le> 90) \<or> (192 \<le> n \<and> n \<le> 214) \<or> (216 \<le> n \<and> n \<le> 222)
         then char_of (n + 32) else c)"

definition lower :: "string \<Rightarrow> string" where
  "lower s = map lower_char s"

text \<open>\<open>t.startswith(w)\<close>, and Python's substring test \<open>w in t\<close>: \<open>w\<close> starts at
  some position of \<open>t\<close>.\<close>

fun starts_with :: "string \<Rightarrow> string \<Rightarrow> bool" where
  "starts_with t [] = True"
| "starts_with [] (c # w) = False"
| "starts_with (d # t) (c # w) = (d = c \<and> starts_with t w)"

fun str_in :: "string \<Rightarrow> string \<Rightarrow> bool" where
  "str_in w [] = (w = [])"
| "str_in w (d # t) = (starts_with (d # t) w \<or> str_in w t)"

text \<open>\<open>sep.join(parts)\<close>.\<close>

fun join :: "string \<Rightarrow> string list \<Rightarrow> string" where
  "join sep [] = []"
| "join sep [p] = p"
| "join sep (p # p' # ps) = p @ sep @ join sep (p' # ps)"

text \<open>
  The slice \<open>xs[:n]\<close> for a Python integer \<open>n\<close>: the first \<open>n\<close> elements, and for a
  negative \<open>n\<close> everything but the last \<open>-n\<close> elements.
\<close>

definition py_take :: "int \<Rightarrow> 'a list \<Rightarrow> 'a list" where
  "py_take n xs = (if 0 \<le> n then take (nat n) xs else take (length xs - nat (- n)) xs)"

text \<open>
  \<open>str.isspace\<close> on one code point, below U+0100: tab, line feed, vertical tab, form
  feed, carriage return, the separators U+001C..U+001F, space, U+0085 and U+00A0.
  \<open>s.split()\<close> cuts \<open>s\<close> at runs of such code points and drops empty pieces.
\<close>

definition is_space :: "char \<Rightarrow> bool" where
  "is_space c =
     (let n = (of_char c :: nat)
      in (9 \<le> n \<and> n \<le> 13) \<or> (28 \<le> n \<and> n \<le> 32) \<or> n = 133 \<or> n = 160)"

fun split_acc :: "string \<Rightarrow> string \<Rightarrow> string list" where
  "split_acc word [] = (if word = [] then [] else [word])"
| "split_acc word (c # s) =
     (if is_space c then (if word = [] then split_acc [] s else word # split_acc [] s)
      else split_acc (word @ [c]) s)"

definition split :: "string \<Rightarrow> string list" where
  "split s = split_acc [] s"

section \<open>Validation helpers (app.py, lines 36 to 91)\<close>

definition EDU_KEYWORDS :: "string list" where
  "EDU_KEYWORDS =
     [''course'', ''class'', ''workshop'', ''training'', ''tutorial'',
      ''webinar'', ''lecture'', ''program'', ''degree'', ''diploma'',
      ''certificate'', ''bootcamp'', ''seminar'', ''learn'', ''education'', ''study'']"

text \<open>\<open>any(word in t for word in EDU_KEYWORDS)\<close> is \<open>list_ex\<close> over the keyword list.\<close>

definition is_educational :: "string \<Rightarrow> bool" where
  "is_educational text =
     (let t = lower text in list_ex (\<lambda>word. str_in word t) EDU_KEYWORDS)"

definition classify_type :: "string \<Rightarrow> string" where
  "classify_type text =
     (let t = lower text
      in if str_in ''webinar'' t \<or> str_in ''seminar'' t \<or> str_in ''workshop'' t
           then ''Seminar / Workshop''
         else if str_in ''video'' t \<or> str_in ''youtube'' t \<or> str_in ''lecture'' t
           then ''Video / Lecture''
         else if str_in ''course'' t \<or> str_in ''short course'' t \<or> str_in ''bootcamp'' t
                 \<or> str_in ''mooc'' t
           then ''Course''
         else ''Article / Other'')"

definition classify_mode :: "string \<Rightarrow> string" where
  "classify_mode text =
     (let t = lower text
      in if str_in ''online'' t \<or> str_in ''virtual'' t \<or> str_in ''remote'' t
              \<or> str_in ''self-paced'' t
           then ''Online''
         else if str_in ''campus'' t \<or> str_in ''in-person'' t \<or> str_in ''on campus'' t
                 \<or> str_in ''classroom'' t \<or> str_in ''venue'' t
           then ''In-person''
         else ''Unknown'')"

definition classify_cost :: "string \<Rightarrow> string" where
  "classify_cost text =
     (let t = lower text
      in if str_in ''free'' t \<or> str_in ''no cost'' t
           then ''Free''
         else if str_in ''$'' t \<or> str_in ''aud'' t \<or> str_in ''fee'' t \<or> str_in ''per month'' t
                 \<or> str_in ''per year'' t
           then ''Paid / Unknown''
         else ''Unknown'')"

definition matches_location :: "string \<Rightarrow> string \<Rightarrow> string \<Rightarrow> bool" where
  "matches_location combined_text country region =
     (let text = lower combined_text
      in if country = ''Any'' then True
         else let c = lower country; r = lower region
              in if region = ''Any'' then str_in c text
                 else str_in c text \<or> str_in r text)"

section \<open>Online search through SerpAPI (app.py, lines 95 to 173)\<close>

text \<open>
  A raised Python exception is a value: \<open>Exception msg\<close> stands for any exception
  object \<open>e\<close> with \<open>str(e) = msg\<close>. A function that may raise returns \<open>exn + 'a\<close>.
\<close>

datatype exn = Exception (message: string)

text \<open>
  The search library is outside the repository. \<open>GoogleSearch(params).get_dict()\<close> is a
  parameter of the model: a function from the request parameters to the decoded
  answer, or to the exception the call raises. The answer keeps what the code reads:
  the list under the key \<open>organic_results\<close> (\<open>None\<close> when the key is missing), each
  entry a dictionary from keys to strings.
\<close>

record params =
  p_engine :: string
  p_q :: string
  p_num :: int
  p_api_key :: string

type_synonym raw_result = "string \<rightharpoonup> string"
type_synonym response = "raw_result list option"
type_synonym serpapi = "params \<Rightarrow> exn + response"

record hit =
  hit_title :: string
  hit_link :: string
  hit_snippet :: string

text \<open>\<open>r.get(key, default)\<close>.\<close>

definition dict_get :: "raw_result \<Rightarrow> string \<Rightarrow> string \<Rightarrow> string" where
  "dict_get r key dflt = (case r key of None \<Rightarrow> dflt | Some v \<Rightarrow> v)"

text \<open>The loop over \<open>organic\<close>: an entry with an empty or missing link is skipped.\<close>

fun collect_results :: "raw_result list \<Rightarrow> hit list" where
  "collect_results [] = []"
| "collect_results (r # organic) =
     (let title = dict_get r ''title'' [];
          link = dict_get r ''link'' [];
          snippet = dict_get r ''snippet'' []
      in if link \<noteq> []
         then \<lparr>hit_title = title, hit_link = link, hit_snippet = snippet\<rparr> # collect_results organic
         else collect_results organic)"

definition run_serpapi_query :: "serpapi \<Rightarrow> string \<Rightarrow> string \<Rightarrow> int \<Rightarrow> exn + hit list" where
  "run_serpapi_query get_dict API_KEY query max_results =
     (case get_dict \<lparr>p_engine = ''google'', p_q = query, p_num = max_results,
                      p_api_key = API_KEY\<rparr> of
        Inl e \<Rightarrow> Inl e
      | Inr data \<Rightarrow>
          (let organic = py_take max_results (case data of None \<Rightarrow> [] | Some rs \<Rightarrow> rs)
           in Inr (collect_results organic)))"

text \<open>
  The dictionary \<open>filters\<close> always has the five keys the page builds it with
  (app.py, lines 259 to 265); it is a record.
\<close>

record filters =
  f_type :: string
  f_mode :: string
  f_cost :: string
  f_country :: string
  f_region :: string

text \<open>The base term list, after the appends for type, mode and cost.\<close>

definition base_parts :: "string \<Rightarrow> filters \<Rightarrow> string list" where
  "base_parts topic fs =
     [topic, ''education'', ''course OR workshop OR webinar OR training'']
     @ (if f_type fs = ''Course'' then [''course'']
        else if f_type fs = ''Seminar / Workshop'' then [''seminar OR workshop'']
        else if f_type fs = ''Video / Lecture'' then [''video OR lecture'']
        else [])
     @ (if f_mode fs = ''Online'' then [''online'']
        else if f_mode fs = ''In-person'' then [''in person OR on campus'']
        else [])
     @ (if f_cost fs = ''Free'' then [''free'']
        else if f_cost fs = ''Paid / Unknown'' then [''fee OR $'']
        else [])"

text \<open>The list \<open>tries\<close>: the term lists of the candidates, most specific first.\<close>

definition tries :: "string \<Rightarrow> filters \<Rightarrow> string list list" where
  "tries topic fs =
     (let base = base_parts topic fs; country = f_country fs; region = f_region fs
      in (if country \<noteq> ''Any'' \<and> region \<noteq> ''Any'' then [base @ [country, region]] else [])
         @ (if country \<noteq> ''Any'' then [base @ [country]] else [])
         @ [base])"

text \<open>The query strings the loop sends, in order.\<close>

definition query_candidates :: "string \<Rightarrow> filters \<Rightarrow> string list" where
  "query_candidates topic fs = map (join '' '') (tries topic fs)"

text \<open>
  The loop over \<open>tries\<close>. The second component collects the messages given to
  \<open>st.error\<close>, in order.
\<close>

fun try_queries :: "serpapi \<Rightarrow> string \<Rightarrow> int \<Rightarrow> string list list \<Rightarrow> hit list \<times> string list" where
  "try_queries get_dict API_KEY max_results [] = ([], [])"
| "try_queries get_dict API_KEY max_results (parts # rest) =
     (let query = join '' '' parts;
          (results, shown) =
            (case run_serpapi_query get_dict API_KEY query max_results of
               Inl e \<Rightarrow> ([], [''Search error: '' @ message e])
             | Inr rs \<Rightarrow> (rs, []))
      in if results \<noteq> [] then (results, shown)
         else (let (found, later) = try_queries get_dict API_KEY max_results rest
               in (found, shown @ later)))"

definition search_web :: "serpapi \<Rightarrow> string \<Rightarrow> string \<Rightarrow> filters \<Rightarrow> int \<Rightarrow> hit list \<times> string list" where
  "search_web get_dict API_KEY topic fs max_results =
     (if API_KEY = ''YOUR_SERPAPI_KEY_HERE''
      then ([], [''Set your SerpAPI key in app.py (API_KEY).''])
      else try_queries get_dict API_KEY max_results (tries topic fs))"

section \<open>Scraping a page (app.py, lines 177 to 190)\<close>

text \<open>
  The HTTP request and the HTML parser are outside the repository. The parameter
  \<open>get_text\<close> stands for the body of the \<open>try\<close> up to \<open>soup.get_text(" ")\<close>: the
  request, \<open>raise_for_status\<close>, the parse and the removal of script, style and
  noscript elements. It gives the text of the page, or the exception raised on the way.
\<close>

type_synonym fetcher = "string \<Rightarrow> exn + string"

definition scrape_page :: "fetcher \<Rightarrow> string \<Rightarrow> int \<Rightarrow> string" where
  "scrape_page get_text url max_chars =
     (case get_text url of
        Inr raw \<Rightarrow> (let text = join '' '' (split raw) in py_take max_chars text)
      | Inl e \<Rightarrow> ''(scrape error: '' @ message e @ '')'')"

section \<open>The result store (database.py)\<close>

text \<open>
  The database file holds at most the table \<open>results\<close>. A table is its rows in
  insertion order and the counter SQLite keeps for an \<open>AUTOINCREMENT\<close> key (the
  largest id the table has ever held). \<open>None\<close> is a file without the table.

  The three statements follow SQLite: \<open>CREATE TABLE IF NOT EXISTS\<close> leaves an existing
  table alone; \<open>INSERT\<close> without an id takes one more than the largest of the counter
  and the ids in the table, and fails once the largest id of a 64-bit signed key has
  been used; \<open>SELECT ... ORDER BY id DESC\<close> sorts by decreasing id. A statement on a
  missing table fails.
\<close>

record row =
  row_id :: int
  row_query :: string
  row_title :: string
  row_link :: string
  row_content :: string

record table =
  rows :: "row list"
  seq :: int

type_synonym db = "table option"

definition create_database :: "db \<Rightarrow> db" where
  "create_database con = (case con of None \<Rightarrow> Some \<lparr>rows = [], seq = 0\<rparr> | Some t \<Rightarrow> Some t)"

definition max_rowid :: int where
  "max_rowid = 9223372036854775807"

definition next_id :: "table \<Rightarrow> int" where
  "next_id t = fold max (map row_id (rows t)) (seq t) + 1"

definition save_result :: "db \<Rightarrow> string \<Rightarrow> string \<Rightarrow> string \<Rightarrow> string \<Rightarrow> exn + db" where
  "save_result con query title link content =
     (case con of
        None \<Rightarrow> Inl (Exception ''no such table: results'')
      | Some t \<Rightarrow>
          if next_id t > max_rowid then Inl (Exception ''database or disk is full'')
          else Inr (Some (t\<lparr>rows := rows t @
                              [\<lparr>row_id = next_id t, row_query = query, row_title = title,
                                row_link = link,
                                row_content = (if content \<noteq> [] then content else [])\<rparr>],
                            seq := next_id t\<rparr>)))"

fun insert_desc :: "row \<Rightarrow> row list \<Rightarrow> row list" where
  "insert_desc r [] = [r]"
| "insert_desc r (x # xs) = (if row_id x \<le> row_id r then r # x # xs else x # insert_desc r xs)"

fun order_by_id_desc :: "row list \<Rightarrow> row list" where
  "order_by_id_desc [] = []"
| "order_by_id_desc (r # rs) = insert_desc r (order_by_id_desc rs)"

definition get_results :: "db \<Rightarrow> exn + row list" where
  "get_results con =
     (case con of
        None \<Rightarrow> Inl (Exception ''no such table: results'')
      | Some t \<Rightarrow> Inr (order_by_id_desc (rows t)))"

text \<open>The store's operations as commands, and the state after a sequence of them
  (a failed statement leaves the file as it was).\<close>

datatype store_op = Create | Save string string string string | List

fun store_step :: "db \<Rightarrow> store_op \<Rightarrow> db" where
  "store_step con Create = create_database con"
| "store_step con (Save query title link content) =
     (case save_result con query title link content of Inl e \<Rightarrow> con | Inr con' \<Rightarrow> con')"
| "store_step con List = con"

definition store_run :: "db \<Rightarrow> store_op list \<Rightarrow> db" where
  "store_run con ops = foldl store_step con ops"

text \<open>The rows of the file, in insertion order; none without the table.\<close>

definition rows_of :: "db \<Rightarrow> row list" where
  "rows_of con = (case con of None \<Rightarrow> [] | Some t \<Rightarrow> rows t)"

text \<open>What every file reached from an empty one satisfies: ids grow along the rows,
  and the counter is at least every id.\<close>

definition store_inv :: "db \<Rightarrow> bool" where
  "store_inv con =
     (case con of
        None \<Rightarrow> True
      | Some t \<Rightarrow> sorted_wrt (<) (map row_id (rows t)) \<and> list_all (\<lambda>r. row_id r \<le> seq t) (rows t))"

section \<open>The page Find Programs (app.py, lines 204 to 354)\<close>

text \<open>The select boxes offer these countries and, for each, these regions.\<close>

definition COUNTRY_REGIONS :: "(string \<times> string list) list" where
  "COUNTRY_REGIONS =
     [(''Any'', [''Any'']),
      (''Australia'', [''Any'', ''Melbourne'', ''Sydney'', ''Brisbane'', ''Perth'', ''Adelaide'']),
      (''United States'', [''Any'', ''New York'', ''Los Angeles'', ''Chicago'', ''San Francisco'']),
      (''United Kingdom'', [''Any'', ''London'', ''Manchester'', ''Birmingham'']),
      (''Canada'', [''Any'', ''Toronto'', ''Vancouver'', ''Montreal'']),
      (''India'', [''Any'', ''Mumbai'', ''Delhi'', ''Bengaluru'', ''Chennai''])]"

text \<open>A choice of the two select boxes: a key of the table, and one of its regions.\<close>

definition selectable :: "string \<Rightarrow> string \<Rightarrow> bool" where
  "selectable country region =
     (case map_of COUNTRY_REGIONS country of
        None \<Rightarrow> False
      | Some regions \<Rightarrow> region \<in> set regions)"

record item =
  item_title :: string
  item_link :: string
  item_snippet :: string
  item_type :: string
  item_mode :: string
  item_cost :: string
  item_country :: string
  item_region :: string
  item_raw_text :: string

text \<open>
  One round of the loop over the search results: \<open>None\<close> where the loop says
  \<open>continue\<close>, the appended item otherwise. \<open>scrape\<close> is \<open>scrape_page\<close> with its
  default bound.
\<close>

definition check_hit :: "(string \<Rightarrow> string) \<Rightarrow> filters \<Rightarrow> hit \<Rightarrow> item option" where
  "check_hit scrape fs r =
     (let country = f_country fs; region = f_region fs;
          page_text = scrape (hit_link r);
          combined = hit_title r @ '' '' @ hit_snippet r @ '' '' @ page_text
      in if \<not> is_educational combined then None
         else if \<not> matches_location combined country region then None
         else let r_type = classify_type combined;
                  r_mode = classify_mode combined;
                  r_cost = classify_cost combined
              in if f_type fs \<noteq> ''Any'' \<and> r_type \<noteq> f_type fs then None
                 else if f_mode fs \<noteq> ''Any'' \<and> r_mode \<noteq> f_mode fs then None
                 else if f_cost fs \<noteq> ''Any'' \<and> r_cost \<noteq> f_cost fs then None
                 else let snippet = (if hit_snippet r \<noteq> [] then hit_snippet r
                                     else take 300 page_text)
                      in Some \<lparr>item_title = hit_title r, item_link = hit_link r,
                               item_snippet = snippet, item_type = r_type, item_mode = r_mode,
                               item_cost = r_cost, item_country = country, item_region = region,
                               item_raw_text = take 2000 combined\<rparr>)"

fun collect_items :: "(string \<Rightarrow> string) \<Rightarrow> filters \<Rightarrow> hit list \<Rightarrow> item list" where
  "collect_items scrape fs [] = []"
| "collect_items scrape fs (r # search_results) =
     (case check_hit scrape fs r of
        None \<Rightarrow> collect_items scrape fs search_results
      | Some it \<Rightarrow> it # collect_items scrape fs search_results)"

text \<open>The fourth argument of the call of \<open>save_result\<close> (line 337).\<close>

definition content_of :: "item \<Rightarrow> string" where
  "content_of it =
     ''[TYPE:'' @ item_type it @ ''][MODE:'' @ item_mode it @ ''][COST:'' @ item_cost it
     @ ''][COUNTRY:'' @ item_country it @ ''][REGION:'' @ item_region it @ '']''
     @ [CHR 0x0A] @ item_raw_text it"

text \<open>The loop that saves the items; an exception of \<open>save_result\<close> is not caught.\<close>

fun save_items :: "db \<Rightarrow> string \<Rightarrow> item list \<Rightarrow> exn + db" where
  "save_items con topic [] = Inr con"
| "save_items con topic (it # items) =
     (case save_result con topic (item_title it) (item_link it) (content_of it) of
        Inl e \<Rightarrow> Inl e
      | Inr con' \<Rightarrow> save_items con' topic items)"

text \<open>
  One run of the script with the page Find Programs open and the button pressed:
  \<open>create_database()\<close> at the top of the script, then the page. The four outcomes are
  the four messages of the page.
\<close>

datatype outcome = Empty_Topic | No_Search_Results | No_Matches | Showing "item list"

definition find_programs ::
  "serpapi \<Rightarrow> fetcher \<Rightarrow> string \<Rightarrow> db \<Rightarrow> string \<Rightarrow> filters \<Rightarrow> int \<Rightarrow> exn + outcome \<times> db" where
  "find_programs get_dict get_text API_KEY file topic fs num_results =
     (let con = create_database file
      in if list_all is_space topic then Inr (Empty_Topic, con)
         else let search_results = fst (search_web get_dict API_KEY topic fs num_results)
              in if search_results = [] then Inr (No_Search_Results, con)
                 else let items = collect_items (\<lambda>url. scrape_page get_text url 1500) fs
                                    search_results
                      in if items = [] then Inr (No_Matches, con)
                         else (case save_items con topic items of
                                 Inl e \<Rightarrow> Inl e
                               | Inr con' \<Rightarrow> Inr (Showing items, con')))"

section \<open>Reading the tags of a stored content value\<close>

text \<open>
  Modelled from the spec: the reader of a stored \<open>content\<close> value. The repository
  writes the tag block and has no code that reads it back; the spec asks that a reader
  recovers the five tag fields by parsing the bracketed prefix up to the first newline.
  \<open>read_tags\<close> takes the text before the first newline and reads, in this order, the
  tags TYPE, MODE, COST, COUNTRY and REGION, each of the form \<open>[KEY:value]\<close> with the
  value running up to the next closing bracket; nothing may follow the last tag.
\<close>

fun after_prefix :: "string \<Rightarrow> string \<Rightarrow> string option" where
  "after_prefix [] s = Some s"
| "after_prefix (c # p) [] = None"
| "after_prefix (c # p) (d # s) = (if c = d then after_prefix p s else None)"

definition read_tag :: "string \<Rightarrow> string \<Rightarrow> (string \<times> string) option" where
  "read_tag key s =
     (case after_prefix (''['' @ key @ '':'') s of
        None \<Rightarrow> None
      | Some rest \<Rightarrow>
          (case dropWhile (\<lambda>c. c \<noteq> CHR '']'') rest of
             [] \<Rightarrow> None
           | bracket # after \<Rightarrow> Some (takeWhile (\<lambda>c. c \<noteq> CHR '']'') rest, after)))"

definition read_tags :: "string \<Rightarrow> (string \<times> string \<times> string \<times> string \<times> string) option" where
  "read_tags content =
     (let line = takeWhile (\<lambda>c. c \<noteq> CHR 0x0A) content
      in case read_tag ''TYPE'' line of
           None \<Rightarrow> None
         | Some (ty, s1) \<Rightarrow>
        (case read_tag ''MODE'' s1 of
           None \<Rightarrow> None
         | Some (mo, s2) \<Rightarrow>
        (case read_tag ''COST'' s2 of
           None \<Rightarrow> None
         | Some (co, s3) \<Rightarrow>
        (case read_tag ''COUNTRY'' s3 of
           None \<Rightarrow> None
         | Some (cn, s4) \<Rightarrow>
        (case read_tag ''REGION'' s4 of
           None \<Rightarrow> None
         | Some (rg, s5) \<Rightarrow> if s5 = [] then Some (ty, mo, co, cn, rg) else None)))))"

text \<open>A field value that the tag block can carry: no closing bracket, no newline.\<close>

definition tag_safe :: "string \<Rightarrow> bool" where
  "tag_safe v = (CHR '']'' \<notin> set v \<and> CHR 0x0A \<notin> set v)"

section \<open>Substring test and lower-casing\<close>

lemma starts_with_prefix: "starts_with t w \<longleftrightarrow> prefix w t"
  by (induction t w rule: starts_with.induct) auto

lemma str_in_sublist: "str_in w t \<longleftrightarrow> sublist w t"
  by (induction t) (auto simp: starts_with_prefix sublist_Cons_right)

lemma sublist_lower_iff:
  "sublist w (lower t) \<longleftrightarrow> (\<exists>u. sublist u t \<and> lower u = w)"
proof
  assume "sublist w (lower t)"
  then obtain ps ss where "map lower_char t = ps @ w @ ss"
    by (auto simp: sublist_def lower_def)
  then obtain t1 r where t: "t = t1 @ r" and r: "map lower_char r = w @ ss"
    by (metis map_eq_append_conv)
  from r obtain t2 t3 where "r = t2 @ t3" and "map lower_char t2 = w"
    by (metis map_eq_append_conv)
  with t have "t = t1 @ t2 @ t3" and "map lower_char t2 = w"
    by simp_all
  then show "\<exists>u. sublist u t \<and> lower u = w"
    by (auto simp: lower_def)
next
  assume "\<exists>u. sublist u t \<and> lower u = w"
  then obtain u ps ss where "t = ps @ u @ ss" and "lower u = w"
    by (auto simp: sublist_def)
  then have "lower t = lower ps @ w @ lower ss"
    by (simp add: lower_def)
  then show "sublist w (lower t)"
    by (metis sublist_appendI)
qed

section \<open>The educational check\<close>

text \<open>
  C2. For every text, \<open>is_educational\<close> holds exactly when one of the sixteen keywords
  occurs in the text up to letter case: some piece \<open>u\<close> of consecutive characters of
  the text is the keyword once lower-cased. The empty text is not educational. The
  keyword list of the code has sixteen entries, all different.
\<close>

theorem is_educational_keywords:
  "(is_educational text \<longleftrightarrow>
      (\<exists>kw \<in> {''course'', ''class'', ''workshop'', ''training'', ''tutorial'', ''webinar'',
               ''lecture'', ''program'', ''degree'', ''diploma'', ''certificate'', ''bootcamp'',
               ''seminar'', ''learn'', ''education'', ''study''}.
         \<exists>u. sublist u text \<and> lower u = kw))
   \<and> \<not> is_educational ''''
   \<and> length EDU_KEYWORDS = 16 \<and> distinct EDU_KEYWORDS"
proof (intro conjI)
  show "is_educational text \<longleftrightarrow>
      (\<exists>kw \<in> {''course'', ''class'', ''workshop'', ''training'', ''tutorial'', ''webinar'',
               ''lecture'', ''program'', ''degree'', ''diploma'', ''certificate'', ''bootcamp'',
               ''seminar'', ''learn'', ''education'', ''study''}.
         \<exists>u. sublist u text \<and> lower u = kw)"
    by (simp add: is_educational_def EDU_KEYWORDS_def str_in_sublist sublist_lower_iff)
  show "\<not> is_educational ''''"
    by (simp add: is_educational_def EDU_KEYWORDS_def lower_def)
  show "length EDU_KEYWORDS = 16" and "distinct EDU_KEYWORDS"
    by (simp_all add: EDU_KEYWORDS_def)
qed

theorem is_educational_keywords_witness:
  "sublist ''Course'' ''Intro to PYTHON Course'' \<and> lower ''Course'' = ''course''
   \<and> is_educational ''Intro to PYTHON Course''"
proof -
  have s: "sublist ''Course'' ''Intro to PYTHON Course''"
    by code_simp
  have l: "lower ''Course'' = ''course''"
    by code_simp
  from s l have "\<exists>kw \<in> {''course'', ''class'', ''workshop'', ''training'', ''tutorial'', ''webinar'',
               ''lecture'', ''program'', ''degree'', ''diploma'', ''certificate'', ''bootcamp'',
               ''seminar'', ''learn'', ''education'', ''study''}.
         \<exists>u. sublist u ''Intro to PYTHON Course'' \<and> lower u = kw"
    by blast
  then have "is_educational ''Intro to PYTHON Course''"
    by (rule is_educational_keywords [THEN conjunct1, THEN iffD2])
  with s l show ?thesis by blast
qed

section \<open>The three classifiers\<close>

text \<open>
  C3. Each classifier is a function of the text alone and gives the label of the
  first keyword group, in the order of the code, of which a keyword occurs in the
  lower-cased text, and its default when no group has one: Seminar / Workshop before
  Video / Lecture before Course, else Article / Other; Online before In-person, else
  Unknown; Free before Paid / Unknown, else Unknown. So a text with keywords of two
  groups gets the label of the earlier group; in particular every text with both
  "webinar" and "course" is a Seminar / Workshop.
\<close>

theorem classify_first_match:
  "(sublist ''webinar'' (lower text) \<or> sublist ''seminar'' (lower text)
      \<or> sublist ''workshop'' (lower text)
      \<longrightarrow> classify_type text = ''Seminar / Workshop'')
   \<and> (\<not> (sublist ''webinar'' (lower text) \<or> sublist ''seminar'' (lower text)
           \<or> sublist ''workshop'' (lower text))
      \<and> (sublist ''video'' (lower text) \<or> sublist ''youtube'' (lower text)
           \<or> sublist ''lecture'' (lower text))
      \<longrightarrow> classify_type text = ''Video / Lecture'')
   \<and> (\<not> (sublist ''webinar'' (lower text) \<or> sublist ''seminar'' (lower text)
           \<or> sublist ''workshop'' (lower text))
      \<and> \<not> (sublist ''video'' (lower text) \<or> sublist ''youtube'' (lower text)
           \<or> sublist ''lecture'' (lower text))
      \<and> (sublist ''course'' (lower text) \<or> sublist ''short course'' (lower text)
           \<or> sublist ''bootcamp'' (lower text) \<or> sublist ''mooc'' (lower text))
      \<longrightarrow> classify_type text = ''Course'')
   \<and> (\<not> (sublist ''webinar'' (lower text) \<or> sublist ''seminar'' (lower text)
           \<or> sublist ''workshop'' (lower text))
      \<and> \<not> (sublist ''video'' (lower text) \<or> sublist ''youtube'' (lower text)
           \<or> sublist ''lecture'' (lower text))
      \<and> \<not> (sublist ''course'' (lower text) \<or> sublist ''short course'' (lower text)
           \<or> sublist ''bootcamp'' (lower text) \<or> sublist ''mooc'' (lower text))
      \<longrightarrow> classify_type text = ''Article / Other'')
   \<and> (sublist ''online'' (lower text) \<or> sublist ''virtual'' (lower text)
      \<or> sublist ''remote'' (lower text) \<or> sublist ''self-paced'' (lower text)
      \<longrightarrow> classify_mode text = ''Online'')
   \<and> (\<not> (sublist ''online'' (lower text) \<or> sublist ''virtual'' (lower text)
           \<or> sublist ''remote'' (lower text) \<or> sublist ''self-paced'' (lower text))
      \<and> (sublist ''campus'' (lower text) \<or> sublist ''in-person'' (lower text)
           \<or> sublist ''on campus'' (lower text) \<or> sublist ''classroom'' (lower text)
           \<or> sublist ''venue'' (lower text))
      \<longrightarrow> classify_mode text = ''In-person'')
   \<and> (\<not> (sublist ''online'' (lower text) \<or> sublist ''virtual'' (lower text)
           \<or> sublist ''remote'' (lower text) \<or> sublist ''self-paced'' (lower text))
      \<and> \<not> (sublist ''campus'' (lower text) \<or> sublist ''in-person'' (lower text)
           \<or> sublist ''on campus'' (lower text) \<or> sublist ''classroom'' (lower text)
           \<or> sublist ''venue'' (lower text))
      \<longrightarrow> classify_mode text = ''Unknown'')
   \<and> (sublist ''free'' (lower text) \<or> sublist ''no cost'' (lower text)
      \<longrightarrow> classify_cost text = ''Free'')
   \<and> (\<not> (sublist ''free'' (lower text) \<or> sublist ''no cost'' (lower text))
      \<and> (sublist ''$'' (lower text) \<or> sublist ''aud'' (lower text)
           \<or> sublist ''fee'' (lower text) \<or> sublist ''per month'' (lower text)
           \<or> sublist ''per year'' (lower text))
      \<longrightarrow> classify_cost text = ''Paid / Unknown'')
   \<and> (\<not> (sublist ''free'' (lower text) \<or> sublist ''no cost'' (lower text))
      \<and> \<not> (sublist ''$'' (lower text) \<or> sublist ''aud'' (lower text)
           \<or> sublist ''fee'' (lower text) \<or> sublist ''per month'' (lower text)
           \<or> sublist ''per year'' (lower text))
      \<longrightarrow> classify_cost text = ''Unknown'')
   \<and> (sublist ''webinar'' (lower text) \<and> sublist ''course'' (lower text)
      \<longrightarrow> classify_type text = ''Seminar / Workshop'')"
  unfolding classify_type_def classify_mode_def classify_cost_def Let_def str_in_sublist
  by simp

theorem classify_first_match_witness:
  "classify_type ''Free WEBINAR, then a course'' = ''Seminar / Workshop''
   \<and> classify_type ''YouTube course'' = ''Video / Lecture''
   \<and> classify_type ''Data Bootcamp'' = ''Course''
   \<and> classify_type ''Hello'' = ''Article / Other''
   \<and> classify_mode ''Remote or on campus'' = ''Online''
   \<and> classify_mode ''Classroom'' = ''In-person''
   \<and> classify_mode ''Hello'' = ''Unknown''
   \<and> classify_cost ''Free, no fee'' = ''Free''
   \<and> classify_cost ''$20 per month'' = ''Paid / Unknown''
   \<and> classify_cost ''Hello'' = ''Unknown''"
proof -
  note T = classify_first_match
  have "sublist ''webinar'' (lower ''Free WEBINAR, then a course'')
        \<and> sublist ''course'' (lower ''Free WEBINAR, then a course'')"
    by code_simp
  then have 1: "classify_type ''Free WEBINAR, then a course'' = ''Seminar / Workshop''"
    using T [of "''Free WEBINAR, then a course''"] by simp
  have "\<not> (sublist ''webinar'' (lower ''YouTube course'')
           \<or> sublist ''seminar'' (lower ''YouTube course'')
           \<or> sublist ''workshop'' (lower ''YouTube course''))
        \<and> sublist ''youtube'' (lower ''YouTube course'')
        \<and> sublist ''course'' (lower ''YouTube course'')"
    by code_simp
  then have 2: "classify_type ''YouTube course'' = ''Video / Lecture''"
    using T [of "''YouTube course''"] by simp
  have "\<not> (sublist ''webinar'' (lower ''Data Bootcamp'')
           \<or> sublist ''seminar'' (lower ''Data Bootcamp'')
           \<or> sublist ''workshop'' (lower ''Data Bootcamp''))
        \<and> \<not> (sublist ''video'' (lower ''Data Bootcamp'')
           \<or> sublist ''youtube'' (lower ''Data Bootcamp'')
           \<or> sublist ''lecture'' (lower ''Data Bootcamp''))
        \<and> sublist ''bootcamp'' (lower ''Data Bootcamp'')"
    by code_simp
  then have 3: "classify_type ''Data Bootcamp'' = ''Course''"
    using T [of "''Data Bootcamp''"] by simp
  have "\<not> (sublist ''webinar'' (lower ''Hello'') \<or> sublist ''seminar'' (lower ''Hello'')
           \<or> sublist ''workshop'' (lower ''Hello''))
        \<and> \<not> (sublist ''video'' (lower ''Hello'') \<or> sublist ''youtube'' (lower ''Hello'')
           \<or> sublist ''lecture'' (lower ''Hello''))
        \<and> \<not> (sublist ''course'' (lower ''Hello'') \<or> sublist ''short course'' (lower ''Hello'')
           \<or> sublist ''bootcamp'' (lower ''Hello'') \<or> sublist ''mooc'' (lower ''Hello''))"
    by code_simp
  then have 4: "classify_type ''Hello'' = ''Article / Other''"
    using T [of "''Hello''"] by simp
  have "sublist ''remote'' (lower ''Remote or on campus'')
        \<and> sublist ''on campus'' (lower ''Remote or on campus'')"
    by code_simp
  then have 5: "classify_mode ''Remote or on campus'' = ''Online''"
    using T [of "''Remote or on campus''"] by simp
  have "\<not> (sublist ''online'' (lower ''Classroom'') \<or> sublist ''virtual'' (lower ''Classroom'')
           \<or> sublist ''remote'' (lower ''Classroom'') \<or> sublist ''self-paced'' (lower ''Classroom''))
        \<and> sublist ''classroom'' (lower ''Classroom'')"
    by code_simp
  then have 6: "classify_mode ''Classroom'' = ''In-person''"
    using T [of "''Classroom''"] by simp
  have "\<not> (sublist ''online'' (lower ''Hello'') \<or> sublist ''virtual'' (lower ''Hello'')
           \<or> sublist ''remote'' (lower ''Hello'') \<or> sublist ''self-paced'' (lower ''Hello''))
        \<and> \<not> (sublist ''campus'' (lower ''Hello'') \<or> sublist ''in-person'' (lower ''Hello'')
           \<or> sublist ''on campus'' (lower ''Hello'') \<or> sublist ''classroom'' (lower ''Hello'')
           \<or> sublist ''venue'' (lower ''Hello''))"
    by code_simp
  then have 7: "classify_mode ''Hello'' = ''Unknown''"
    using T [of "''Hello''"] by simp
  have "sublist ''free'' (lower ''Free, no fee'') \<and> sublist ''fee'' (lower ''Free, no fee'')"
    by code_simp
  then have 8: "classify_cost ''Free, no fee'' = ''Free''"
    using T [of "''Free, no fee''"] by simp
  have "\<not> (sublist ''free'' (lower ''$20 per month'') \<or> sublist ''no cost'' (lower ''$20 per month''))
        \<and> sublist ''$'' (lower ''$20 per month'')"
    by code_simp
  then have 9: "classify_cost ''$20 per month'' = ''Paid / Unknown''"
    using T [of "''$20 per month''"] by simp
  have "\<not> (sublist ''free'' (lower ''Hello'') \<or> sublist ''no cost'' (lower ''Hello''))
        \<and> \<not> (sublist ''$'' (lower ''Hello'') \<or> sublist ''aud'' (lower ''Hello'')
           \<or> sublist ''fee'' (lower ''Hello'') \<or> sublist ''per month'' (lower ''Hello'')
           \<or> sublist ''per year'' (lower ''Hello''))"
    by code_simp
  then have 10: "classify_cost ''Hello'' = ''Unknown''"
    using T [of "''Hello''"] by simp
  from 1 2 3 4 5 6 7 8 9 10 show ?thesis
    by (intro conjI)
qed

section \<open>The location check\<close>

text \<open>
  C4. For every text, country and region: with the country "Any" the check passes;
  with a country other than "Any" and the region "Any" it passes exactly when the
  lower-cased country occurs in the lower-cased text; with both other than "Any" it
  passes exactly when the lower-cased country or the lower-cased region occurs there,
  so a text that names only the region passes.
\<close>

theorem matches_location_rules:
  "(country = ''Any'' \<longrightarrow> matches_location combined_text country region)
   \<and> (country \<noteq> ''Any'' \<and> region = ''Any'' \<longrightarrow>
        (matches_location combined_text country region \<longleftrightarrow> sublist (lower country) (lower combined_text)))
   \<and> (country \<noteq> ''Any'' \<and> region \<noteq> ''Any'' \<longrightarrow>
        (matches_location combined_text country region \<longleftrightarrow>
           sublist (lower country) (lower combined_text) \<or> sublist (lower region) (lower combined_text)))"
  by (simp add: matches_location_def str_in_sublist Let_def)

theorem matches_location_rules_witness:
  "matches_location ''Unrelated page'' ''Any'' ''Any''
   \<and> matches_location ''Sydney program in AUSTRALIA'' ''Australia'' ''Any''
   \<and> \<not> matches_location ''Sydney program'' ''Australia'' ''Any''
   \<and> \<not> sublist (lower ''Australia'') (lower ''Melbourne program'')
   \<and> matches_location ''Melbourne program'' ''Australia'' ''Melbourne''
   \<and> matches_location ''Sydney program, Australia'' ''Australia'' ''Melbourne''
   \<and> \<not> matches_location ''Unrelated page'' ''Australia'' ''Melbourne''"
proof -
  note T = matches_location_rules
  have 1: "matches_location ''Unrelated page'' ''Any'' ''Any''"
    using T [where country = "''Any''" and region = "''Any''" and combined_text = "''Unrelated page''"] by blast
  have "sublist (lower ''Australia'') (lower ''Sydney program in AUSTRALIA'')"
    by code_simp
  then have 2: "matches_location ''Sydney program in AUSTRALIA'' ''Australia'' ''Any''"
    using T [where country = "''Australia''" and region = "''Any''" and combined_text = "''Sydney program in AUSTRALIA''"] by simp
  have "\<not> sublist (lower ''Australia'') (lower ''Sydney program'')"
    by code_simp
  then have 3: "\<not> matches_location ''Sydney program'' ''Australia'' ''Any''"
    using T [where country = "''Australia''" and region = "''Any''" and combined_text = "''Sydney program''"] by simp
  have 4: "\<not> sublist (lower ''Australia'') (lower ''Melbourne program'')"
    by code_simp
  have "sublist (lower ''Melbourne'') (lower ''Melbourne program'')"
    by code_simp
  then have 5: "matches_location ''Melbourne program'' ''Australia'' ''Melbourne''"
    using T [where country = "''Australia''" and region = "''Melbourne''" and combined_text = "''Melbourne program''"] by simp
  have "sublist (lower ''Australia'') (lower ''Sydney program, Australia'')"
    by code_simp
  then have 6: "matches_location ''Sydney program, Australia'' ''Australia'' ''Melbourne''"
    using T [where country = "''Australia''" and region = "''Melbourne''" and combined_text = "''Sydney program, Australia''"] by simp
  have "\<not> sublist (lower ''Australia'') (lower ''Unrelated page'')
        \<and> \<not> sublist (lower ''Melbourne'') (lower ''Unrelated page'')"
    by code_simp
  then have 7: "\<not> matches_location ''Unrelated page'' ''Australia'' ''Melbourne''"
    using T [where country = "''Australia''" and region = "''Melbourne''" and combined_text = "''Unrelated page''"] by simp
  from 1 2 3 4 5 6 7 show ?thesis
    by (intro conjI)
qed

section \<open>The query candidates\<close>

lemma join_snoc: "ps \<noteq> [] \<Longrightarrow> join sep (ps @ [p]) = join sep ps @ sep @ p"
  by (induction sep ps rule: join.induct) auto

lemma base_parts_not_Nil: "base_parts topic fs \<noteq> []"
  by (simp add: base_parts_def)

lemma base_parts_cong:
  "f_type fs = f_type fs' \<Longrightarrow> f_mode fs = f_mode fs' \<Longrightarrow> f_cost fs = f_cost fs'
   \<Longrightarrow> base_parts topic fs = base_parts topic fs'"
  by (simp add: base_parts_def)

lemma tries_any: "f_country fs = ''Any'' \<Longrightarrow> tries topic fs = [base_parts topic fs]"
  by (simp add: tries_def Let_def)

text \<open>
  C5, as amended. With country and region both other than "Any" there are exactly
  three candidates, each the same base term list plus its own suffix: base, country
  and region; base and country; base alone. As strings: the base query followed by
  the country and the region, the base query followed by the country, and the base
  query itself, to which no location term is added.
\<close>

theorem query_candidates_both_set:
  assumes "f_country fs \<noteq> ''Any''" and "f_region fs \<noteq> ''Any''"
  shows "tries topic fs =
           [base_parts topic fs @ [f_country fs, f_region fs],
            base_parts topic fs @ [f_country fs],
            base_parts topic fs]
         \<and> query_candidates topic fs =
           [join '' '' (base_parts topic fs) @ '' '' @ f_country fs @ '' '' @ f_region fs,
            join '' '' (base_parts topic fs) @ '' '' @ f_country fs,
            join '' '' (base_parts topic fs)]
         \<and> length (query_candidates topic fs) = 3
         \<and> suffix (f_country fs @ '' '' @ f_region fs) (query_candidates topic fs ! 0)
         \<and> suffix (f_country fs) (query_candidates topic fs ! 1)"
proof -
  have t: "tries topic fs =
           [base_parts topic fs @ [f_country fs, f_region fs],
            base_parts topic fs @ [f_country fs],
            base_parts topic fs]"
    using assms by (simp add: tries_def Let_def)
  have j1: "join '' '' (base_parts topic fs @ [f_country fs])
            = join '' '' (base_parts topic fs) @ '' '' @ f_country fs"
    by (rule join_snoc [OF base_parts_not_Nil])
  have "join '' '' ((base_parts topic fs @ [f_country fs]) @ [f_region fs])
        = join '' '' (base_parts topic fs @ [f_country fs]) @ '' '' @ f_region fs"
    by (rule join_snoc) simp
  with j1 have j2: "join '' '' (base_parts topic fs @ [f_country fs, f_region fs])
        = join '' '' (base_parts topic fs) @ '' '' @ f_country fs @ '' '' @ f_region fs"
    by simp
  have q: "query_candidates topic fs =
           [join '' '' (base_parts topic fs) @ '' '' @ f_country fs @ '' '' @ f_region fs,
            join '' '' (base_parts topic fs) @ '' '' @ f_country fs,
            join '' '' (base_parts topic fs)]"
    unfolding query_candidates_def t using j1 j2 by simp
  have s0: "suffix (f_country fs @ '' '' @ f_region fs) (query_candidates topic fs ! 0)"
    unfolding q by (simp add: suffix_def)
  have s1: "suffix (f_country fs) (query_candidates topic fs ! 1)"
    unfolding q by (simp add: suffix_def)
  from t q s0 s1 show ?thesis by simp
qed

theorem query_candidates_both_set_witness:
  "query_candidates ''python basics''
     \<lparr>f_type = ''Any'', f_mode = ''Any'', f_cost = ''Any'',
      f_country = ''Australia'', f_region = ''Melbourne''\<rparr>
   = [''python basics education course OR workshop OR webinar OR training Australia Melbourne'',
      ''python basics education course OR workshop OR webinar OR training Australia'',
      ''python basics education course OR workshop OR webinar OR training'']"
proof -
  have b: "join '' '' (base_parts ''python basics''
             \<lparr>f_type = ''Any'', f_mode = ''Any'', f_cost = ''Any'',
              f_country = ''Australia'', f_region = ''Melbourne''\<rparr>)
           = ''python basics education course OR workshop OR webinar OR training''"
    by (simp add: base_parts_def)
  have "f_country \<lparr>f_type = ''Any'', f_mode = ''Any'', f_cost = ''Any'',
              f_country = ''Australia'', f_region = ''Melbourne''\<rparr> \<noteq> ''Any''"
    and "f_region \<lparr>f_type = ''Any'', f_mode = ''Any'', f_cost = ''Any'',
              f_country = ''Australia'', f_region = ''Melbourne''\<rparr> \<noteq> ''Any''"
    by simp_all
  from query_candidates_both_set [OF this, of "''python basics''", THEN conjunct2, THEN conjunct1]
  show ?thesis
    unfolding b by simp
qed

text \<open>
  The claim as stated fails on the third candidate: it is the base query, and the
  base query starts with the topic. A topic that names the chosen region puts the
  region into the third candidate.
\<close>

theorem third_candidate_contains_region:
  "f_country \<lparr>f_type = ''Any'', f_mode = ''Any'', f_cost = ''Any'',
              f_country = ''Australia'', f_region = ''Melbourne''\<rparr> \<noteq> ''Any''
   \<and> f_region \<lparr>f_type = ''Any'', f_mode = ''Any'', f_cost = ''Any'',
              f_country = ''Australia'', f_region = ''Melbourne''\<rparr> \<noteq> ''Any''
   \<and> query_candidates ''Melbourne schools''
        \<lparr>f_type = ''Any'', f_mode = ''Any'', f_cost = ''Any'',
         f_country = ''Australia'', f_region = ''Melbourne''\<rparr> ! 2
      = ''Melbourne schools education course OR workshop OR webinar OR training''
   \<and> sublist ''Melbourne''
        (query_candidates ''Melbourne schools''
           \<lparr>f_type = ''Any'', f_mode = ''Any'', f_cost = ''Any'',
            f_country = ''Australia'', f_region = ''Melbourne''\<rparr> ! 2)"
  by code_simp

text \<open>
  C10. With the country "Any" the region plays no part: two filter sets that agree on
  type, mode and cost and both have the country "Any" give the same single candidate,
  the base query, and the same search result, whatever their regions are; and the
  location check passes for every text and every region.
\<close>

theorem region_ignored_when_country_any:
  assumes "f_country fs1 = ''Any''" and "f_country fs2 = ''Any''"
    and "f_type fs1 = f_type fs2" and "f_mode fs1 = f_mode fs2" and "f_cost fs1 = f_cost fs2"
  shows "query_candidates topic fs1 = [join '' '' (base_parts topic fs1)]
         \<and> query_candidates topic fs1 = query_candidates topic fs2
         \<and> search_web get_dict API_KEY topic fs1 max_results
             = search_web get_dict API_KEY topic fs2 max_results
         \<and> matches_location combined_text (f_country fs1) (f_region fs1)
         \<and> matches_location combined_text (f_country fs2) (f_region fs2)
         \<and> matches_location combined_text ''Any'' r1
         \<and> matches_location combined_text ''Any'' r2"
proof -
  have b: "base_parts topic fs1 = base_parts topic fs2"
    using assms(3-5) by (rule base_parts_cong)
  have t: "tries topic fs1 = tries topic fs2"
    using assms(1,2) b by (simp add: tries_any)
  have q: "query_candidates topic fs1 = [join '' '' (base_parts topic fs1)]"
    using assms(1) by (simp add: query_candidates_def tries_any)
  have q': "query_candidates topic fs1 = query_candidates topic fs2"
    using t by (simp add: query_candidates_def)
  have s: "search_web get_dict API_KEY topic fs1 max_results
             = search_web get_dict API_KEY topic fs2 max_results"
    using t by (simp add: search_web_def)
  have m: "matches_location combined_text ''Any'' r" for r
    by (simp add: matches_location_def)
  from q q' s m assms(1,2) show ?thesis by simp
qed

theorem region_ignored_when_country_any_witness:
  "query_candidates ''robotics for kids''
     \<lparr>f_type = ''Course'', f_mode = ''Online'', f_cost = ''Free'',
      f_country = ''Any'', f_region = ''Perth''\<rparr>
   = query_candidates ''robotics for kids''
     \<lparr>f_type = ''Course'', f_mode = ''Online'', f_cost = ''Free'',
      f_country = ''Any'', f_region = ''Any''\<rparr>
   \<and> search_web (\<lambda>p. Inl (Exception ''offline'')) ''key'' ''robotics for kids''
       \<lparr>f_type = ''Course'', f_mode = ''Online'', f_cost = ''Free'',
        f_country = ''Any'', f_region = ''Perth''\<rparr> 8
     = search_web (\<lambda>p. Inl (Exception ''offline'')) ''key'' ''robotics for kids''
       \<lparr>f_type = ''Course'', f_mode = ''Online'', f_cost = ''Free'',
        f_country = ''Any'', f_region = ''Any''\<rparr> 8
   \<and> matches_location ''Unrelated page'' ''Any'' ''Perth''
   \<and> matches_location ''Unrelated page'' ''Any'' ''Any''"
proof -
  let ?f1 = "\<lparr>f_type = ''Course'', f_mode = ''Online'', f_cost = ''Free'',
              f_country = ''Any'', f_region = ''Perth''\<rparr>"
  let ?f2 = "\<lparr>f_type = ''Course'', f_mode = ''Online'', f_cost = ''Free'',
              f_country = ''Any'', f_region = ''Any''\<rparr>"
  have "f_country ?f1 = ''Any''" and "f_country ?f2 = ''Any''"
    and "f_type ?f1 = f_type ?f2" and "f_mode ?f1 = f_mode ?f2" and "f_cost ?f1 = f_cost ?f2"
    by simp_all
  note T = region_ignored_when_country_any [OF this,
      where topic = "''robotics for kids''" and get_dict = "\<lambda>p. Inl (Exception ''offline'')"
        and API_KEY = "''key''" and max_results = 8 and combined_text = "''Unrelated page''"
        and ?r1.0 = "''Perth''" and ?r2.0 = "''Any''"]
  from T show ?thesis
    by (elim conjE) (intro conjI, assumption+)
qed

section \<open>The search loop\<close>

lemma collect_results_length: "length (collect_results organic) \<le> length organic"
  by (induction organic) (auto simp: Let_def)

lemma py_take_length: "0 \<le> n \<Longrightarrow> int (length (py_take n xs)) \<le> n"
  by (simp add: py_take_def)

lemma run_serpapi_query_length:
  assumes "run_serpapi_query get_dict API_KEY query max_results = Inr rs"
    and "0 \<le> max_results"
  shows "int (length rs) \<le> max_results"
proof -
  from assms(1) obtain data where
    rs: "rs = collect_results (py_take max_results (case data of None \<Rightarrow> [] | Some xs \<Rightarrow> xs))"
    by (auto simp: run_serpapi_query_def Let_def split: sum.splits)
  have "int (length rs) \<le> int (length (py_take max_results (case data of None \<Rightarrow> [] | Some xs \<Rightarrow> xs)))"
    unfolding rs using collect_results_length by simp
  also have "\<dots> \<le> max_results"
    using assms(2) by (rule py_take_length)
  finally show ?thesis .
qed

lemma try_queries_hit:
  assumes "run_serpapi_query get_dict API_KEY (join '' '' parts) max_results = Inr rs"
    and "rs \<noteq> []"
  shows "fst (try_queries get_dict API_KEY max_results (parts # rest)) = rs"
  using assms by (simp add: Let_def)

lemma try_queries_skip:
  assumes "run_serpapi_query get_dict API_KEY (join '' '' parts) max_results = Inr []
           \<or> (\<exists>e. run_serpapi_query get_dict API_KEY (join '' '' parts) max_results = Inl e)"
  shows "fst (try_queries get_dict API_KEY max_results (parts # rest))
         = fst (try_queries get_dict API_KEY max_results rest)"
  using assms by (auto simp: Let_def split: prod.splits)

lemma try_queries_first:
  assumes "i < length ps"
    and "run_serpapi_query get_dict API_KEY (join '' '' (ps ! i)) max_results = Inr rs"
    and "rs \<noteq> []"
    and "\<forall>j<i. run_serpapi_query get_dict API_KEY (join '' '' (ps ! j)) max_results = Inr []
           \<or> (\<exists>e. run_serpapi_query get_dict API_KEY (join '' '' (ps ! j)) max_results = Inl e)"
  shows "fst (try_queries get_dict API_KEY max_results ps) = rs"
  using assms
proof (induction ps arbitrary: i)
  case Nil
  then show ?case by simp
next
  case (Cons p ps)
  show ?case
  proof (cases i)
    case 0
    with Cons.prems(2,3) show ?thesis
      by (simp add: try_queries_hit)
  next
    case (Suc k)
    from Cons.prems(4) Suc
    have "run_serpapi_query get_dict API_KEY (join '' '' p) max_results = Inr []
           \<or> (\<exists>e. run_serpapi_query get_dict API_KEY (join '' '' p) max_results = Inl e)"
      by fastforce
    then have skip: "fst (try_queries get_dict API_KEY max_results (p # ps))
                     = fst (try_queries get_dict API_KEY max_results ps)"
      by (rule try_queries_skip)
    have "fst (try_queries get_dict API_KEY max_results ps) = rs"
    proof (rule Cons.IH [of k])
      show "k < length ps"
        using Cons.prems(1) Suc by simp
      show "run_serpapi_query get_dict API_KEY (join '' '' (ps ! k)) max_results = Inr rs"
        using Cons.prems(2) Suc by simp
      show "rs \<noteq> []"
        by (rule Cons.prems(3))
      show "\<forall>j<k. run_serpapi_query get_dict API_KEY (join '' '' (ps ! j)) max_results = Inr []
           \<or> (\<exists>e. run_serpapi_query get_dict API_KEY (join '' '' (ps ! j)) max_results = Inl e)"
      proof (intro allI impI)
        fix j assume "j < k"
        then have "Suc j < i"
          using Suc by simp
        with Cons.prems(4) show "run_serpapi_query get_dict API_KEY (join '' '' (ps ! j)) max_results = Inr []
           \<or> (\<exists>e. run_serpapi_query get_dict API_KEY (join '' '' (ps ! j)) max_results = Inl e)"
          by fastforce
      qed
    qed
    with skip show ?thesis by simp
  qed
qed

lemma try_queries_none:
  assumes "\<forall>p \<in> set ps. run_serpapi_query get_dict API_KEY (join '' '' p) max_results = Inr []
           \<or> (\<exists>e. run_serpapi_query get_dict API_KEY (join '' '' p) max_results = Inl e)"
  shows "fst (try_queries get_dict API_KEY max_results ps) = []"
  using assms
proof (induction ps)
  case Nil
  then show ?case by simp
next
  case (Cons p ps)
  then show ?case
    using try_queries_skip [of get_dict API_KEY p max_results ps] by simp
qed

lemma try_queries_length:
  assumes "0 \<le> max_results"
  shows "int (length (fst (try_queries get_dict API_KEY max_results ps))) \<le> max_results"
proof (induction ps)
  case Nil
  show ?case using assms by simp
next
  case (Cons p ps)
  show ?case
  proof (cases "run_serpapi_query get_dict API_KEY (join '' '' p) max_results")
    case (Inl e)
    then show ?thesis
      using Cons.IH try_queries_skip [of get_dict API_KEY p max_results ps] by simp
  next
    case (Inr rs)
    show ?thesis
    proof (cases "rs = []")
      case True
      with Inr show ?thesis
        using Cons.IH try_queries_skip [of get_dict API_KEY p max_results ps] by simp
    next
      case False
      with Inr have "fst (try_queries get_dict API_KEY max_results (p # ps)) = rs"
        by (simp add: try_queries_hit)
      with Inr assms show ?thesis
        by (simp add: run_serpapi_query_length)
    qed
  qed
qed

text \<open>
  C1. With the API key set, the search step tries the candidates in their order. If
  candidate \<open>i\<close> returns a list \<open>rs\<close> that is not empty and every candidate before it
  returned the empty list or raised, the result is \<open>rs\<close>: a raising candidate counts
  as an empty one and the next is tried. If every candidate returns the empty list or
  raises, the result is the empty list. The result is always a list, never an
  exception, and for a bound \<open>max_results\<close> that is not negative it has at most
  \<open>max_results\<close> hits.
\<close>

theorem search_web_first_nonempty:
  assumes "API_KEY \<noteq> ''YOUR_SERPAPI_KEY_HERE''"
  shows "(\<forall>i rs. i < length (query_candidates topic fs)
            \<and> run_serpapi_query get_dict API_KEY (query_candidates topic fs ! i) max_results = Inr rs
            \<and> rs \<noteq> []
            \<and> (\<forall>j<i. run_serpapi_query get_dict API_KEY (query_candidates topic fs ! j) max_results
                        = Inr []
                     \<or> (\<exists>e. run_serpapi_query get_dict API_KEY (query_candidates topic fs ! j)
                               max_results = Inl e))
          \<longrightarrow> fst (search_web get_dict API_KEY topic fs max_results) = rs)
       \<and> ((\<forall>q \<in> set (query_candidates topic fs).
              run_serpapi_query get_dict API_KEY q max_results = Inr []
              \<or> (\<exists>e. run_serpapi_query get_dict API_KEY q max_results = Inl e))
          \<longrightarrow> fst (search_web get_dict API_KEY topic fs max_results) = [])
       \<and> (0 \<le> max_results
          \<longrightarrow> int (length (fst (search_web get_dict API_KEY topic fs max_results))) \<le> max_results)"
proof (intro conjI allI impI)
  have sw: "search_web get_dict API_KEY topic fs max_results
            = try_queries get_dict API_KEY max_results (tries topic fs)"
    using assms by (simp add: search_web_def)
  {
    fix i rs
    assume h: "i < length (query_candidates topic fs)
            \<and> run_serpapi_query get_dict API_KEY (query_candidates topic fs ! i) max_results = Inr rs
            \<and> rs \<noteq> []
            \<and> (\<forall>j<i. run_serpapi_query get_dict API_KEY (query_candidates topic fs ! j) max_results
                        = Inr []
                     \<or> (\<exists>e. run_serpapi_query get_dict API_KEY (query_candidates topic fs ! j)
                               max_results = Inl e))"
    then have i: "i < length (tries topic fs)"
      by (simp add: query_candidates_def)
    have nth: "query_candidates topic fs ! j = join '' '' (tries topic fs ! j)" if "j \<le> i" for j
      using that i by (simp add: query_candidates_def)
    have "fst (try_queries get_dict API_KEY max_results (tries topic fs)) = rs"
    proof (rule try_queries_first [OF i])
      show "run_serpapi_query get_dict API_KEY (join '' '' (tries topic fs ! i)) max_results = Inr rs"
        using h nth [of i] by simp
      show "rs \<noteq> []"
        using h by simp
      show "\<forall>j<i. run_serpapi_query get_dict API_KEY (join '' '' (tries topic fs ! j)) max_results = Inr []
           \<or> (\<exists>e. run_serpapi_query get_dict API_KEY (join '' '' (tries topic fs ! j)) max_results = Inl e)"
        using h nth by (metis less_imp_le)
    qed
    then show "fst (search_web get_dict API_KEY topic fs max_results) = rs"
      by (simp add: sw)
  }
  {
    assume "\<forall>q \<in> set (query_candidates topic fs).
              run_serpapi_query get_dict API_KEY q max_results = Inr []
              \<or> (\<exists>e. run_serpapi_query get_dict API_KEY q max_results = Inl e)"
    then have "\<forall>p \<in> set (tries topic fs).
              run_serpapi_query get_dict API_KEY (join '' '' p) max_results = Inr []
              \<or> (\<exists>e. run_serpapi_query get_dict API_KEY (join '' '' p) max_results = Inl e)"
      by (simp add: query_candidates_def)
    then show "fst (search_web get_dict API_KEY topic fs max_results) = []"
      unfolding sw by (rule try_queries_none)
  }
  {
    assume "0 \<le> max_results"
    then show "int (length (fst (search_web get_dict API_KEY topic fs max_results))) \<le> max_results"
      unfolding sw by (rule try_queries_length)
  }
qed

theorem search_web_first_nonempty_witness:
  "fst (search_web
         (\<lambda>p. if p_q p = ''python basics education course OR workshop OR webinar OR training Australia Melbourne''
              then Inl (Exception ''timed out'')
              else if p_q p = ''python basics education course OR workshop OR webinar OR training Australia''
              then Inr (Some [])
              else Inr (Some [[''title'' \<mapsto> ''Python course'', ''link'' \<mapsto> ''http://x''],
                              [''title'' \<mapsto> ''No link'']]))
         ''key'' ''python basics''
         \<lparr>f_type = ''Any'', f_mode = ''Any'', f_cost = ''Any'',
          f_country = ''Australia'', f_region = ''Melbourne''\<rparr> 8)
   = [\<lparr>hit_title = ''Python course'', hit_link = ''http://x'', hit_snippet = []\<rparr>]
   \<and> fst (search_web (\<lambda>p. Inl (Exception ''offline'')) ''key'' ''python basics''
         \<lparr>f_type = ''Any'', f_mode = ''Any'', f_cost = ''Any'',
          f_country = ''Australia'', f_region = ''Melbourne''\<rparr> 8)
     = []
   \<and> int (length (fst (search_web
                         (\<lambda>p. Inr (Some [[''link'' \<mapsto> ''a''], [''link'' \<mapsto> ''b''],
                                          [''link'' \<mapsto> ''c'']]))
                         ''key'' ''python basics''
                         \<lparr>f_type = ''Any'', f_mode = ''Any'', f_cost = ''Any'',
                          f_country = ''Australia'', f_region = ''Melbourne''\<rparr> 2))) \<le> 2"
proof -
  let ?gd = "\<lambda>p. if p_q p = ''python basics education course OR workshop OR webinar OR training Australia Melbourne''
              then Inl (Exception ''timed out'')
              else if p_q p = ''python basics education course OR workshop OR webinar OR training Australia''
              then Inr (Some [])
              else Inr (Some [[''title'' \<mapsto> ''Python course'', ''link'' \<mapsto> ''http://x''],
                              [''title'' \<mapsto> ''No link'']])"
  let ?fs = "\<lparr>f_type = ''Any'', f_mode = ''Any'', f_cost = ''Any'',
              f_country = ''Australia'', f_region = ''Melbourne''\<rparr>"
  let ?rs = "[\<lparr>hit_title = ''Python course'', hit_link = ''http://x'', hit_snippet = []\<rparr>]"
  have q: "query_candidates ''python basics'' ?fs
           = [''python basics education course OR workshop OR webinar OR training Australia Melbourne'',
              ''python basics education course OR workshop OR webinar OR training Australia'',
              ''python basics education course OR workshop OR webinar OR training'']"
    by (simp add: query_candidates_def tries_def base_parts_def Let_def)
  have r0: "run_serpapi_query ?gd ''key'' (query_candidates ''python basics'' ?fs ! 0) 8
            = Inl (Exception ''timed out'')"
    unfolding q by (simp add: run_serpapi_query_def)
  have r1: "run_serpapi_query ?gd ''key'' (query_candidates ''python basics'' ?fs ! 1) 8 = Inr []"
    unfolding q by (simp add: run_serpapi_query_def py_take_def)
  have r2: "run_serpapi_query ?gd ''key'' (query_candidates ''python basics'' ?fs ! 2) 8 = Inr ?rs"
    unfolding q by (simp add: run_serpapi_query_def py_take_def dict_get_def)
  have before: "\<forall>j<2. run_serpapi_query ?gd ''key'' (query_candidates ''python basics'' ?fs ! j) 8 = Inr []
      \<or> (\<exists>e. run_serpapi_query ?gd ''key'' (query_candidates ''python basics'' ?fs ! j) 8 = Inl e)"
  proof (intro allI impI)
    fix j :: nat assume "j < 2"
    then have "j = 0 \<or> j = 1" by auto
    with r0 r1 show "run_serpapi_query ?gd ''key'' (query_candidates ''python basics'' ?fs ! j) 8 = Inr []
      \<or> (\<exists>e. run_serpapi_query ?gd ''key'' (query_candidates ''python basics'' ?fs ! j) 8 = Inl e)"
      by auto
  qed
  have key: "''key'' \<noteq> ''YOUR_SERPAPI_KEY_HERE''"
    by simp
  have len: "2 < length (query_candidates ''python basics'' ?fs)"
    unfolding q by simp
  from search_web_first_nonempty [OF key, of "''python basics''" ?fs ?gd 8, THEN conjunct1,
      rule_format, of 2 ?rs] len r2 before
  have first: "fst (search_web ?gd ''key'' ''python basics'' ?fs 8) = ?rs"
    by simp
  let ?off = "\<lambda>p::params. (Inl (Exception ''offline'') :: exn + response)"
  have "\<forall>q \<in> set (query_candidates ''python basics'' ?fs).
          run_serpapi_query ?off ''key'' q 8 = Inr []
          \<or> (\<exists>e. run_serpapi_query ?off ''key'' q 8 = Inl e)"
    by (simp add: run_serpapi_query_def)
  with search_web_first_nonempty [OF key, of "''python basics''" ?fs ?off 8, THEN conjunct2,
      THEN conjunct1]
  have none: "fst (search_web ?off ''key'' ''python basics'' ?fs 8) = []"
    by (rule mp)
  let ?three = "\<lambda>p::params. (Inr (Some [[''link'' \<mapsto> ''a''], [''link'' \<mapsto> ''b''],
                                         [''link'' \<mapsto> ''c'']]) :: exn + response)"
  have "(0::int) \<le> 2"
    by simp
  with search_web_first_nonempty [OF key, of "''python basics''" ?fs ?three 2, THEN conjunct2,
      THEN conjunct2]
  have bound: "int (length (fst (search_web ?three ''key'' ''python basics'' ?fs 2))) \<le> 2"
    by (rule mp)
  from first none bound show ?thesis
    by (intro conjI)
qed

section \<open>The page fetcher\<close>

lemma py_take_prefix: "prefix (py_take n xs) xs"
  by (simp add: py_take_def take_is_prefix)

text \<open>
  C7. \<open>scrape_page\<close> returns a string whatever the request and the parser do: when
  they raise \<open>e\<close>, the placeholder "(scrape error: " followed by the message of \<open>e\<close>
  and ")"; when they give the text of the page, the slice up to \<open>max_chars\<close> of that
  text with its white space normalised, which is a prefix of it and, for a bound that
  is not negative, has at most \<open>max_chars\<close> characters.
\<close>

theorem scrape_page_never_raises:
  "(\<forall>e. get_text url = Inl e \<longrightarrow>
        scrape_page get_text url max_chars = ''(scrape error: '' @ message e @ '')'')
   \<and> (\<forall>raw. get_text url = Inr raw \<longrightarrow>
        scrape_page get_text url max_chars = py_take max_chars (join '' '' (split raw))
        \<and> prefix (scrape_page get_text url max_chars) (join '' '' (split raw))
        \<and> (0 \<le> max_chars \<longrightarrow>
             scrape_page get_text url max_chars = take (nat max_chars) (join '' '' (split raw))
             \<and> int (length (scrape_page get_text url max_chars)) \<le> max_chars))"
proof (intro conjI allI impI)
  fix e assume "get_text url = Inl e"
  then show "scrape_page get_text url max_chars = ''(scrape error: '' @ message e @ '')''"
    by (simp add: scrape_page_def)
next
  fix raw assume r: "get_text url = Inr raw"
  then show s: "scrape_page get_text url max_chars = py_take max_chars (join '' '' (split raw))"
    by (simp add: scrape_page_def)
  show "prefix (scrape_page get_text url max_chars) (join '' '' (split raw))"
    unfolding s by (rule py_take_prefix)
  assume "0 \<le> max_chars"
  then show "scrape_page get_text url max_chars = take (nat max_chars) (join '' '' (split raw))"
    and "int (length (scrape_page get_text url max_chars)) \<le> max_chars"
    unfolding s by (simp_all add: py_take_def)
qed

theorem scrape_page_never_raises_witness:
  "scrape_page (\<lambda>u. if u = ''http://x'' then Inr ''  Free   online course '' else Inl (Exception ''404''))
      ''http://y'' 1500 = ''(scrape error: 404)''
   \<and> scrape_page (\<lambda>u. if u = ''http://x'' then Inr ''  Free   online course '' else Inl (Exception ''404''))
      ''http://x'' 1500 = ''Free online course''
   \<and> scrape_page (\<lambda>u. if u = ''http://x'' then Inr ''  Free   online course '' else Inl (Exception ''404''))
      ''http://x'' 6 = ''Free o''"
proof -
  let ?gt = "\<lambda>u. if u = ''http://x'' then Inr ''  Free   online course '' else Inl (Exception ''404'')"
  have n: "join '' '' (split ''  Free   online course '') = ''Free online course''"
    by code_simp
  have e: "?gt ''http://y'' = Inl (Exception ''404'')" and r: "?gt ''http://x'' = Inr ''  Free   online course ''"
    by simp_all
  have 1: "scrape_page ?gt ''http://y'' 1500 = ''(scrape error: 404)''"
    using scrape_page_never_raises [of ?gt "''http://y''" 1500, THEN conjunct1, rule_format, OF e]
    by simp
  have 2: "scrape_page ?gt ''http://x'' 1500 = ''Free online course''"
    using scrape_page_never_raises [of ?gt "''http://x''" 1500, THEN conjunct2, rule_format, OF r]
    unfolding n by (simp add: py_take_def)
  have 3: "scrape_page ?gt ''http://x'' 6 = ''Free o''"
    using scrape_page_never_raises [of ?gt "''http://x''" 6, THEN conjunct2, rule_format, OF r]
    unfolding n by (simp add: py_take_def)
  from 1 2 3 show ?thesis by (intro conjI)
qed

section \<open>The accepted items\<close>

lemma collect_items_set:
  "set (collect_items scrape fs search_results)
   = {it. \<exists>r \<in> set search_results. check_hit scrape fs r = Some it}"
  by (induction search_results) (auto split: option.splits)

lemma check_hit_fields:
  assumes "check_hit scrape fs r = Some it"
  shows "item_raw_text it = take 2000 (hit_title r @ '' '' @ hit_snippet r @ '' '' @ scrape (hit_link r))"
    and "item_snippet it = (if hit_snippet r \<noteq> [] then hit_snippet r else take 300 (scrape (hit_link r)))"
    and "item_type it = classify_type (hit_title r @ '' '' @ hit_snippet r @ '' '' @ scrape (hit_link r))"
    and "item_mode it = classify_mode (hit_title r @ '' '' @ hit_snippet r @ '' '' @ scrape (hit_link r))"
    and "item_cost it = classify_cost (hit_title r @ '' '' @ hit_snippet r @ '' '' @ scrape (hit_link r))"
    and "item_country it = f_country fs" and "item_region it = f_region fs"
    and "item_title it = hit_title r" and "item_link it = hit_link r"
  using assms by (auto simp: check_hit_def Let_def split: if_splits)

lemma find_programs_items:
  assumes "find_programs get_dict get_text API_KEY file topic fs num_results = Inr (Showing items, con')"
  shows "items = collect_items (\<lambda>url. scrape_page get_text url 1500) fs
                   (fst (search_web get_dict API_KEY topic fs num_results))"
    and "save_items (create_database file) topic items = Inr con'"
    and "items \<noteq> []"
  using assms by (auto simp: find_programs_def Let_def split: if_splits sum.splits)

lemma check_hit_accepts:
  assumes "is_educational (hit_title r @ '' '' @ hit_snippet r @ '' '' @ scrape (hit_link r))"
    and "matches_location (hit_title r @ '' '' @ hit_snippet r @ '' '' @ scrape (hit_link r))
           (f_country fs) (f_region fs)"
    and "f_type fs = ''Any''
         \<or> classify_type (hit_title r @ '' '' @ hit_snippet r @ '' '' @ scrape (hit_link r)) = f_type fs"
    and "f_mode fs = ''Any''
         \<or> classify_mode (hit_title r @ '' '' @ hit_snippet r @ '' '' @ scrape (hit_link r)) = f_mode fs"
    and "f_cost fs = ''Any''
         \<or> classify_cost (hit_title r @ '' '' @ hit_snippet r @ '' '' @ scrape (hit_link r)) = f_cost fs"
  shows "check_hit scrape fs r =
           Some \<lparr>item_title = hit_title r, item_link = hit_link r,
                 item_snippet = (if hit_snippet r \<noteq> [] then hit_snippet r
                                 else take 300 (scrape (hit_link r))),
                 item_type = classify_type
                               (hit_title r @ '' '' @ hit_snippet r @ '' '' @ scrape (hit_link r)),
                 item_mode = classify_mode
                               (hit_title r @ '' '' @ hit_snippet r @ '' '' @ scrape (hit_link r)),
                 item_cost = classify_cost
                               (hit_title r @ '' '' @ hit_snippet r @ '' '' @ scrape (hit_link r)),
                 item_country = f_country fs, item_region = f_region fs,
                 item_raw_text = take 2000
                               (hit_title r @ '' '' @ hit_snippet r @ '' '' @ scrape (hit_link r))\<rparr>"
  using assms unfolding check_hit_def Let_def by auto

lemma collect_items_keeps:
  "h \<in> set search_results \<Longrightarrow> check_hit scrape fs h = Some x
   \<Longrightarrow> x \<in> set (collect_items scrape fs search_results)"
  unfolding collect_items_set by blast

lemma collect_items_map_filter:
  "collect_items scrape fs search_results = List.map_filter (check_hit scrape fs) search_results"
  by (induction search_results) (simp_all add: List.map_filter_simps split: option.splits)

lemma take_cuts: "n < length xs \<Longrightarrow> length (take n xs) = n \<and> take n xs \<noteq> xs"
  by (metis length_take less_irrefl min.absorb2 less_imp_le)

lemma sublist_append_right: "sublist w a \<Longrightarrow> sublist w (a @ b)"
  by (metis sublist_order.order.trans sublist_append_rightI)

lemma is_educational_course: "sublist ''course'' (lower text) \<Longrightarrow> is_educational text"
  by (simp add: is_educational_def EDU_KEYWORDS_def str_in_sublist)

lemma lower_append: "lower (a @ b) = lower a @ lower b"
  by (simp add: lower_def)

text \<open>
  C6. A hit that passes the checks (educational, location, and each filter that is
  not "Any") is accepted whatever the length of its texts, and the item built from it
  has as raw text the combined text (title, snippet and page text, joined by single
  spaces) cut to its first 2000 characters: at most 2000 characters always, exactly
  2000 and no longer the whole text when the combined text is longer. Cutting is
  total; an over-long text is cut, it is neither refused nor an error. The snippet of
  the item is the first 300 characters of the page text when the snippet of the hit
  is empty, and the snippet of the hit unchanged otherwise. Every item comes from
  such a hit, the loop keeps every hit that passes, in the order of the hits, and the
  items a run of the page shows and saves are the items of the loop.
\<close>

theorem classified_result_fields:
  "(check_hit scrape fs r = Some it \<longrightarrow>
      item_raw_text it = take 2000 (hit_title r @ '' '' @ hit_snippet r @ '' '' @ scrape (hit_link r))
      \<and> length (item_raw_text it) \<le> 2000
      \<and> (hit_snippet r = [] \<longrightarrow> item_snippet it = take 300 (scrape (hit_link r)))
      \<and> (hit_snippet r \<noteq> [] \<longrightarrow> item_snippet it = hit_snippet r))
   \<and> (\<forall>x \<in> set (collect_items scrape fs search_results).
        \<exists>h \<in> set search_results. check_hit scrape fs h = Some x)
   \<and> (find_programs get_dict get_text API_KEY file topic fs num_results = Inr (Showing items, con')
        \<longrightarrow> (\<forall>x \<in> set items.
               \<exists>h \<in> set (fst (search_web get_dict API_KEY topic fs num_results)).
                 check_hit (\<lambda>url. scrape_page get_text url 1500) fs h = Some x))
   \<and> (is_educational (hit_title r @ '' '' @ hit_snippet r @ '' '' @ scrape (hit_link r))
        \<and> matches_location (hit_title r @ '' '' @ hit_snippet r @ '' '' @ scrape (hit_link r))
              (f_country fs) (f_region fs)
        \<and> (f_type fs = ''Any''
             \<or> classify_type (hit_title r @ '' '' @ hit_snippet r @ '' '' @ scrape (hit_link r))
                = f_type fs)
        \<and> (f_mode fs = ''Any''
             \<or> classify_mode (hit_title r @ '' '' @ hit_snippet r @ '' '' @ scrape (hit_link r))
                = f_mode fs)
        \<and> (f_cost fs = ''Any''
             \<or> classify_cost (hit_title r @ '' '' @ hit_snippet r @ '' '' @ scrape (hit_link r))
                = f_cost fs)
        \<longrightarrow> check_hit scrape fs r =
              Some \<lparr>item_title = hit_title r, item_link = hit_link r,
                    item_snippet = (if hit_snippet r \<noteq> [] then hit_snippet r
                                    else take 300 (scrape (hit_link r))),
                    item_type = classify_type
                      (hit_title r @ '' '' @ hit_snippet r @ '' '' @ scrape (hit_link r)),
                    item_mode = classify_mode
                      (hit_title r @ '' '' @ hit_snippet r @ '' '' @ scrape (hit_link r)),
                    item_cost = classify_cost
                      (hit_title r @ '' '' @ hit_snippet r @ '' '' @ scrape (hit_link r)),
                    item_country = f_country fs, item_region = f_region fs,
                    item_raw_text = take 2000
                      (hit_title r @ '' '' @ hit_snippet r @ '' '' @ scrape (hit_link r))\<rparr>)
   \<and> (check_hit scrape fs r = Some it
        \<and> 2000 < length (hit_title r @ '' '' @ hit_snippet r @ '' '' @ scrape (hit_link r))
        \<longrightarrow> length (item_raw_text it) = 2000
            \<and> item_raw_text it \<noteq> hit_title r @ '' '' @ hit_snippet r @ '' '' @ scrape (hit_link r))
   \<and> (check_hit scrape fs r = Some it \<and> hit_snippet r = []
        \<and> 300 < length (scrape (hit_link r))
        \<longrightarrow> length (item_snippet it) = 300 \<and> item_snippet it \<noteq> scrape (hit_link r))
   \<and> (\<forall>h \<in> set search_results. \<forall>x. check_hit scrape fs h = Some x
        \<longrightarrow> x \<in> set (collect_items scrape fs search_results))
   \<and> collect_items scrape fs search_results
       = List.map_filter (check_hit scrape fs) search_results
   \<and> (find_programs get_dict get_text API_KEY file topic fs num_results = Inr (Showing items, con')
        \<longrightarrow> items = collect_items (\<lambda>url. scrape_page get_text url 1500) fs
                      (fst (search_web get_dict API_KEY topic fs num_results)))"
proof (intro conjI impI)
  assume c: "check_hit scrape fs r = Some it"
  show raw: "item_raw_text it
             = take 2000 (hit_title r @ '' '' @ hit_snippet r @ '' '' @ scrape (hit_link r))"
    by (rule check_hit_fields(1) [OF c])
  show "length (item_raw_text it) \<le> 2000"
    unfolding raw by simp
  show "item_snippet it = take 300 (scrape (hit_link r))" if "hit_snippet r = []"
    using check_hit_fields(2) [OF c] that by simp
  show "item_snippet it = hit_snippet r" if "hit_snippet r \<noteq> []"
    using check_hit_fields(2) [OF c] that by simp
next
  show "\<forall>x \<in> set (collect_items scrape fs search_results).
          \<exists>h \<in> set search_results. check_hit scrape fs h = Some x"
    by (simp add: collect_items_set)
next
  assume "find_programs get_dict get_text API_KEY file topic fs num_results = Inr (Showing items, con')"
  then have "items = collect_items (\<lambda>url. scrape_page get_text url 1500) fs
                   (fst (search_web get_dict API_KEY topic fs num_results))"
    by (rule find_programs_items(1))
  then show "\<forall>x \<in> set items.
               \<exists>h \<in> set (fst (search_web get_dict API_KEY topic fs num_results)).
                 check_hit (\<lambda>url. scrape_page get_text url 1500) fs h = Some x"
    by (simp add: collect_items_set)
next
  assume "is_educational (hit_title r @ '' '' @ hit_snippet r @ '' '' @ scrape (hit_link r))
        \<and> matches_location (hit_title r @ '' '' @ hit_snippet r @ '' '' @ scrape (hit_link r))
              (f_country fs) (f_region fs)
        \<and> (f_type fs = ''Any''
             \<or> classify_type (hit_title r @ '' '' @ hit_snippet r @ '' '' @ scrape (hit_link r))
                = f_type fs)
        \<and> (f_mode fs = ''Any''
             \<or> classify_mode (hit_title r @ '' '' @ hit_snippet r @ '' '' @ scrape (hit_link r))
                = f_mode fs)
        \<and> (f_cost fs = ''Any''
             \<or> classify_cost (hit_title r @ '' '' @ hit_snippet r @ '' '' @ scrape (hit_link r))
                = f_cost fs)"
  then show "check_hit scrape fs r =
              Some \<lparr>item_title = hit_title r, item_link = hit_link r,
                    item_snippet = (if hit_snippet r \<noteq> [] then hit_snippet r
                                    else take 300 (scrape (hit_link r))),
                    item_type = classify_type
                      (hit_title r @ '' '' @ hit_snippet r @ '' '' @ scrape (hit_link r)),
                    item_mode = classify_mode
                      (hit_title r @ '' '' @ hit_snippet r @ '' '' @ scrape (hit_link r)),
                    item_cost = classify_cost
                      (hit_title r @ '' '' @ hit_snippet r @ '' '' @ scrape (hit_link r)),
                    item_country = f_country fs, item_region = f_region fs,
                    item_raw_text = take 2000
                      (hit_title r @ '' '' @ hit_snippet r @ '' '' @ scrape (hit_link r))\<rparr>"
    by (intro check_hit_accepts) simp_all
next
  assume a: "check_hit scrape fs r = Some it
        \<and> 2000 < length (hit_title r @ '' '' @ hit_snippet r @ '' '' @ scrape (hit_link r))"
  then have c: "check_hit scrape fs r = Some it"
    by (rule conjunct1)
  have raw: "item_raw_text it
             = take 2000 (hit_title r @ '' '' @ hit_snippet r @ '' '' @ scrape (hit_link r))"
    by (rule check_hit_fields(1) [OF c])
  from a have "2000 < length (hit_title r @ '' '' @ hit_snippet r @ '' '' @ scrape (hit_link r))"
    by (rule conjunct2)
  from take_cuts [OF this]
  show "length (item_raw_text it) = 2000"
    and "item_raw_text it \<noteq> hit_title r @ '' '' @ hit_snippet r @ '' '' @ scrape (hit_link r)"
    unfolding raw by blast+
next
  assume a: "check_hit scrape fs r = Some it \<and> hit_snippet r = []
        \<and> 300 < length (scrape (hit_link r))"
  then have c: "check_hit scrape fs r = Some it" and e: "hit_snippet r = []"
    by blast+
  have s: "item_snippet it = take 300 (scrape (hit_link r))"
    using check_hit_fields(2) [OF c] e by simp
  from a have "300 < length (scrape (hit_link r))"
    by blast
  from take_cuts [OF this]
  show "length (item_snippet it) = 300" and "item_snippet it \<noteq> scrape (hit_link r)"
    unfolding s by blast+
next
  show "\<forall>h \<in> set search_results. \<forall>x. check_hit scrape fs h = Some x
        \<longrightarrow> x \<in> set (collect_items scrape fs search_results)"
    using collect_items_keeps by blast
next
  show "collect_items scrape fs search_results
       = List.map_filter (check_hit scrape fs) search_results"
    by (rule collect_items_map_filter)
next
  assume "find_programs get_dict get_text API_KEY file topic fs num_results = Inr (Showing items, con')"
  then show "items = collect_items (\<lambda>url. scrape_page get_text url 1500) fs
                      (fst (search_web get_dict API_KEY topic fs num_results))"
    by (rule find_programs_items(1))
qed

theorem classified_result_fields_witness:
  "check_hit (\<lambda>url. ''Free online robotics course for children'')
      \<lparr>f_type = ''Any'', f_mode = ''Any'', f_cost = ''Any'', f_country = ''Any'', f_region = ''Any''\<rparr>
      \<lparr>hit_title = ''Kids Robotics Course'', hit_link = ''http://x'', hit_snippet = ''''\<rparr>
    = Some \<lparr>item_title = ''Kids Robotics Course'', item_link = ''http://x'',
            item_snippet = ''Free online robotics course for children'',
            item_type = ''Course'', item_mode = ''Online'', item_cost = ''Free'',
            item_country = ''Any'', item_region = ''Any'',
            item_raw_text = ''Kids Robotics Course  Free online robotics course for children''\<rparr>
   \<and> length ''Kids Robotics Course  Free online robotics course for children'' \<le> 2000
   \<and> ''Free online robotics course for children''
       = take 300 ''Free online robotics course for children''
   \<and> find_programs
        (\<lambda>p. Inr (Some [[''title'' \<mapsto> ''Kids Robotics Course'', ''link'' \<mapsto> ''http://x'',
                          ''snippet'' \<mapsto> ''For children'']]))
        (\<lambda>url. Inr ''Free online robotics course'')
        ''key'' None ''robotics for kids''
        \<lparr>f_type = ''Any'', f_mode = ''Any'', f_cost = ''Any'', f_country = ''Any'', f_region = ''Any''\<rparr> 8
      = Inr (Showing
               [\<lparr>item_title = ''Kids Robotics Course'', item_link = ''http://x'',
                 item_snippet = ''For children'',
                 item_type = ''Course'', item_mode = ''Online'', item_cost = ''Free'',
                 item_country = ''Any'', item_region = ''Any'',
                 item_raw_text = ''Kids Robotics Course For children Free online robotics course''\<rparr>],
             Some \<lparr>rows =
                     [\<lparr>row_id = 1, row_query = ''robotics for kids'',
                       row_title = ''Kids Robotics Course'', row_link = ''http://x'',
                       row_content =
                         ''[TYPE:Course][MODE:Online][COST:Free][COUNTRY:Any][REGION:Any]''
                         @ [CHR 0x0A]
                         @ ''Kids Robotics Course For children Free online robotics course''\<rparr>],
                   seq = 1\<rparr>)
   \<and> check_hit (\<lambda>url. scrape_page (\<lambda>url. Inr ''Free online robotics course'') url 1500)
        \<lparr>f_type = ''Any'', f_mode = ''Any'', f_cost = ''Any'', f_country = ''Any'', f_region = ''Any''\<rparr>
        \<lparr>hit_title = ''Kids Robotics Course'', hit_link = ''http://x'', hit_snippet = ''For children''\<rparr>
      = Some \<lparr>item_title = ''Kids Robotics Course'', item_link = ''http://x'',
                 item_snippet = ''For children'',
                 item_type = ''Course'', item_mode = ''Online'', item_cost = ''Free'',
                 item_country = ''Any'', item_region = ''Any'',
                 item_raw_text = ''Kids Robotics Course For children Free online robotics course''\<rparr>
   \<and> map_option item_raw_text
     (check_hit (\<lambda>url. ''Free online course '' @ replicate 2500 (CHR ''x''))
        \<lparr>f_type = ''Any'', f_mode = ''Any'', f_cost = ''Any'', f_country = ''Any'', f_region = ''Any''\<rparr>
        \<lparr>hit_title = ''Kids Robotics Course'', hit_link = ''http://x'', hit_snippet = []\<rparr>)
     = Some (take 2000 (''Kids Robotics Course  Free online course '' @ replicate 2500 (CHR ''x'')))
   \<and> length (take 2000 (''Kids Robotics Course  Free online course '' @ replicate 2500 (CHR ''x'')))
       = 2000
   \<and> 2000 < length (''Kids Robotics Course  Free online course '' @ replicate 2500 (CHR ''x''))
   \<and> map_option item_snippet
     (check_hit (\<lambda>url. ''Free online course '' @ replicate 2500 (CHR ''x''))
        \<lparr>f_type = ''Any'', f_mode = ''Any'', f_cost = ''Any'', f_country = ''Any'', f_region = ''Any''\<rparr>
        \<lparr>hit_title = ''Kids Robotics Course'', hit_link = ''http://x'', hit_snippet = []\<rparr>)
     = Some (take 300 (''Free online course '' @ replicate 2500 (CHR ''x'')))
   \<and> length (take 300 (''Free online course '' @ replicate 2500 (CHR ''x''))) = 300
   \<and> 300 < length (''Free online course '' @ replicate 2500 (CHR ''x''))"
proof -
  let ?scrape = "\<lambda>url::string. ''Free online robotics course for children''"
  let ?fs = "\<lparr>f_type = ''Any'', f_mode = ''Any'', f_cost = ''Any'', f_country = ''Any'',
              f_region = ''Any''\<rparr>"
  let ?r = "\<lparr>hit_title = ''Kids Robotics Course'', hit_link = ''http://x'', hit_snippet = ''''\<rparr>"
  let ?it = "\<lparr>item_title = ''Kids Robotics Course'', item_link = ''http://x'',
            item_snippet = ''Free online robotics course for children'',
            item_type = ''Course'', item_mode = ''Online'', item_cost = ''Free'',
            item_country = ''Any'', item_region = ''Any'',
            item_raw_text = ''Kids Robotics Course  Free online robotics course for children''\<rparr>"
  let ?gd = "\<lambda>p::params. (Inr (Some [[''title'' \<mapsto> ''Kids Robotics Course'', ''link'' \<mapsto> ''http://x'',
                          ''snippet'' \<mapsto> ''For children'']]) :: exn + response)"
  let ?gt = "\<lambda>url::string. (Inr ''Free online robotics course'' :: exn + string)"
  let ?h = "\<lparr>hit_title = ''Kids Robotics Course'', hit_link = ''http://x'',
             hit_snippet = ''For children''\<rparr>"
  let ?it2 = "\<lparr>item_title = ''Kids Robotics Course'', item_link = ''http://x'',
                 item_snippet = ''For children'',
                 item_type = ''Course'', item_mode = ''Online'', item_cost = ''Free'',
                 item_country = ''Any'', item_region = ''Any'',
                 item_raw_text = ''Kids Robotics Course For children Free online robotics course''\<rparr>"
  let ?con = "Some \<lparr>rows =
                     [\<lparr>row_id = 1, row_query = ''robotics for kids'',
                       row_title = ''Kids Robotics Course'', row_link = ''http://x'',
                       row_content =
                         ''[TYPE:Course][MODE:Online][COST:Free][COUNTRY:Any][REGION:Any]''
                         @ [CHR 0x0A]
                         @ ''Kids Robotics Course For children Free online robotics course''\<rparr>],
                   seq = 1\<rparr>"
  have c: "check_hit ?scrape ?fs ?r = Some ?it"
    by code_simp
  note T1 = classified_result_fields [of ?scrape ?fs ?r ?it, THEN conjunct1, rule_format, OF c]
  from T1 have len: "length (item_raw_text ?it) \<le> 2000"
    by (elim conjE)
  have "hit_snippet ?r = []"
    by simp
  with T1 have "item_snippet ?it = take 300 (?scrape (hit_link ?r))"
    by blast
  then have snip: "''Free online robotics course for children''
                   = take 300 ''Free online robotics course for children''"
    by simp
  have run: "find_programs ?gd ?gt ''key'' None ''robotics for kids'' ?fs 8
             = Inr (Showing [?it2], ?con)"
    by code_simp
  have hits: "fst (search_web ?gd ''key'' ''robotics for kids'' ?fs 8) = [?h]"
    by code_simp
  have m: "?it2 \<in> set [?it2]"
    by simp
  from classified_result_fields [THEN conjunct2, THEN conjunct2, THEN conjunct1, rule_format,
      OF run m]
  have "\<exists>h \<in> set (fst (search_web ?gd ''key'' ''robotics for kids'' ?fs 8)).
          check_hit (\<lambda>url. scrape_page ?gt url 1500) ?fs h = Some ?it2"
    by simp
  then have c2: "check_hit (\<lambda>url. scrape_page ?gt url 1500) ?fs ?h = Some ?it2"
    unfolding hits by simp
  from len have len': "length ''Kids Robotics Course  Free online robotics course for children'' \<le> 2000"
    by simp
  define pad where "pad = replicate 2500 (CHR ''x'')"
  have lp: "length pad = 2500"
    by (simp only: pad_def length_replicate)
  let ?page = "''Free online course '' @ pad"
  let ?long = "\<lambda>url::string. ?page"
  let ?fs0 = "\<lparr>f_type = ''Any'', f_mode = ''Any'', f_cost = ''Any'', f_country = ''Any'',
              f_region = ''Any''\<rparr>"
  let ?r0 = "\<lparr>hit_title = ''Kids Robotics Course'', hit_link = ''http://x'', hit_snippet = []\<rparr>"
  let ?comb = "hit_title ?r0 @ '' '' @ hit_snippet ?r0 @ '' '' @ ?long (hit_link ?r0)"
  have Ceq: "?comb = ''Kids Robotics Course'' @ ('' '' @ '' '' @ ?page)"
    by simp
  have Ceq': "?comb = ''Kids Robotics Course  Free online course '' @ pad"
    by simp
  have "sublist ''course'' (lower ''Kids Robotics Course'')"
    by code_simp
  then have "sublist ''course'' (lower ''Kids Robotics Course'' @ lower ('' '' @ '' '' @ ?page))"
    by (rule sublist_append_right)
  then have edu0: "is_educational ?comb"
    unfolding Ceq lower_append [symmetric] by (rule is_educational_course)
  have loc0: "matches_location ?comb (f_country ?fs0) (f_region ?fs0)"
    by (simp add: matches_location_def)
  have any0: "f_type ?fs0 = ''Any''" "f_mode ?fs0 = ''Any''" "f_cost ?fs0 = ''Any''"
    by simp_all
  have pass0: "is_educational ?comb \<and> matches_location ?comb (f_country ?fs0) (f_region ?fs0)
        \<and> (f_type ?fs0 = ''Any'' \<or> classify_type ?comb = f_type ?fs0)
        \<and> (f_mode ?fs0 = ''Any'' \<or> classify_mode ?comb = f_mode ?fs0)
        \<and> (f_cost ?fs0 = ''Any'' \<or> classify_cost ?comb = f_cost ?fs0)"
    by (intro conjI disjI1 edu0 loc0 any0)
  let ?it0 = "\<lparr>item_title = hit_title ?r0, item_link = hit_link ?r0,
               item_snippet = (if hit_snippet ?r0 \<noteq> [] then hit_snippet ?r0
                               else take 300 (?long (hit_link ?r0))),
               item_type = classify_type ?comb, item_mode = classify_mode ?comb,
               item_cost = classify_cost ?comb,
               item_country = f_country ?fs0, item_region = f_region ?fs0,
               item_raw_text = take 2000 ?comb\<rparr>"
  note T0 = classified_result_fields [of ?long ?fs0 ?r0 ?it0]
  have acc0: "check_hit ?long ?fs0 ?r0 = Some ?it0"
    by (rule T0 [THEN conjunct2, THEN conjunct2, THEN conjunct2, THEN conjunct1, rule_format,
          OF pass0])
  have lenC: "2000 < length ?comb"
    unfolding Ceq' by (simp add: lp)
  have lenP: "300 < length (?long (hit_link ?r0))"
    by (simp add: lp)
  have emp0: "hit_snippet ?r0 = []"
    by simp
  have cut: "length (item_raw_text ?it0) = 2000"
    by (rule T0 [THEN conjunct2, THEN conjunct2, THEN conjunct2, THEN conjunct2, THEN conjunct1,
          THEN mp, OF conjI [OF acc0 lenC], THEN conjunct1])
  have cut': "length (item_snippet ?it0) = 300"
    by (rule T0 [THEN conjunct2, THEN conjunct2, THEN conjunct2, THEN conjunct2, THEN conjunct2,
          THEN conjunct1, THEN mp, OF conjI [OF acc0 conjI [OF emp0 lenP]], THEN conjunct1])
  have raw0: "map_option item_raw_text (check_hit ?long ?fs0 ?r0)
             = Some (take 2000 (''Kids Robotics Course  Free online course '' @ pad))"
    unfolding acc0 Ceq' [symmetric] by simp
  have snip0: "map_option item_snippet (check_hit ?long ?fs0 ?r0) = Some (take 300 ?page)"
    unfolding acc0 by simp
  from cut have cutl: "length (take 2000 (''Kids Robotics Course  Free online course '' @ pad)) = 2000"
    unfolding Ceq' [symmetric] by simp
  from cut' have cutl': "length (take 300 ?page) = 300"
    by simp
  from lenC have lenC': "2000 < length (''Kids Robotics Course  Free online course '' @ pad)"
    unfolding Ceq' .
  from lenP have lenP': "300 < length ?page"
    by simp
  from c len' snip run c2 raw0 cutl lenC' snip0 cutl' lenP' show ?thesis
    unfolding pad_def by (intro conjI)
qed

section \<open>The result store\<close>

lemma fold_max_ge_init: "(a::int) \<le> fold max xs a"
proof (induction xs arbitrary: a)
  case Nil
  show ?case by simp
next
  case (Cons x xs)
  have "a \<le> max x a" by simp
  also have "\<dots> \<le> fold max xs (max x a)" by (rule Cons.IH)
  finally show ?case by simp
qed

lemma fold_max_ge_elem: "x \<in> set xs \<Longrightarrow> (x::int) \<le> fold max xs a"
proof (induction xs arbitrary: a)
  case Nil
  then show ?case by simp
next
  case (Cons y ys)
  show ?case
  proof (cases "x = y")
    case True
    have "x \<le> max y a" using True by simp
    also have "\<dots> \<le> fold max ys (max y a)" by (rule fold_max_ge_init)
    finally show ?thesis by simp
  next
    case False
    with Cons.prems have "x \<in> set ys" by simp
    then show ?thesis using Cons.IH by simp
  qed
qed

lemma next_id_gt_seq: "seq t < next_id t"
  using fold_max_ge_init [of "seq t" "map row_id (rows t)"] by (simp add: next_id_def)

lemma next_id_gt_rows: "r \<in> set (rows t) \<Longrightarrow> row_id r < next_id t"
  using fold_max_ge_elem [of "row_id r" "map row_id (rows t)" "seq t"] by (simp add: next_id_def)

lemma save_result_Inr:
  assumes "save_result con query title link content = Inr con'"
  obtains t where "con = Some t"
    and "con' = Some (t\<lparr>rows := rows t @
                          [\<lparr>row_id = next_id t, row_query = query, row_title = title,
                            row_link = link, row_content = content\<rparr>],
                        seq := next_id t\<rparr>)"
  using assms by (cases con) (auto simp: save_result_def split: if_splits)

lemma save_result_appends:
  assumes "save_result con query title link content = Inr con'"
  shows "\<exists>new. rows_of con' = rows_of con @ [new]
           \<and> row_query new = query \<and> row_title new = title \<and> row_link new = link
           \<and> row_content new = content
           \<and> (\<forall>r \<in> set (rows_of con). row_id r < row_id new)"
proof -
  from assms obtain t where con: "con = Some t"
    and con': "con' = Some (t\<lparr>rows := rows t @
                          [\<lparr>row_id = next_id t, row_query = query, row_title = title,
                            row_link = link, row_content = content\<rparr>],
                        seq := next_id t\<rparr>)"
    by (rule save_result_Inr)
  show ?thesis
    unfolding con con' by (simp add: rows_of_def next_id_gt_rows)
qed

lemma store_inv_save:
  assumes "store_inv con" and "save_result con query title link content = Inr con'"
  shows "store_inv con'"
proof -
  from assms(2) obtain t where con: "con = Some t"
    and con': "con' = Some (t\<lparr>rows := rows t @
                          [\<lparr>row_id = next_id t, row_query = query, row_title = title,
                            row_link = link, row_content = content\<rparr>],
                        seq := next_id t\<rparr>)"
    by (rule save_result_Inr)
  from assms(1) con have s: "sorted_wrt (<) (map row_id (rows t))"
    by (simp add: store_inv_def)
  have le: "row_id r \<le> next_id t" if "r \<in> set (rows t)" for r
    using next_id_gt_rows [OF that] by simp
  show ?thesis
    unfolding con' using s le
    by (auto simp: store_inv_def sorted_wrt_append list_all_iff next_id_gt_rows)
qed

lemma store_inv_step: "store_inv con \<Longrightarrow> store_inv (store_step con op)"
proof (cases op)
  case Create
  assume "store_inv con"
  then show ?thesis
    unfolding Create by (cases con) (simp_all add: create_database_def store_inv_def)
next
  case (Save query title link content)
  assume "store_inv con"
  then show ?thesis
    unfolding Save by (auto split: sum.splits dest: store_inv_save)
next
  case List
  assume "store_inv con"
  then show ?thesis
    unfolding List by simp
qed

lemma store_inv_foldl: "store_inv con \<Longrightarrow> store_inv (foldl store_step con ops)"
  by (induction ops arbitrary: con) (simp_all add: store_inv_step)

lemma store_inv_run: "store_inv (store_run None ops)"
  unfolding store_run_def by (rule store_inv_foldl) (simp add: store_inv_def)

lemma insert_desc_smallest:
  "\<forall>x \<in> set xs. row_id r < row_id x \<Longrightarrow> insert_desc r xs = xs @ [r]"
  by (induction xs) auto

lemma order_by_id_desc_rev:
  "sorted_wrt (<) (map row_id rs) \<Longrightarrow> order_by_id_desc rs = rev rs"
proof (induction rs)
  case Nil
  show ?case by simp
next
  case (Cons r rs)
  then have "order_by_id_desc rs = rev rs" and "\<forall>x \<in> set rs. row_id r < row_id x"
    by simp_all
  then show ?case
    by (simp add: insert_desc_smallest)
qed

lemma increasing_distinct: "sorted_wrt (<) (xs :: int list) \<Longrightarrow> distinct xs"
  by (induction xs) auto

lemma store_step_prefix: "prefix (rows_of con) (rows_of (store_step con op))"
proof (cases op)
  case Create
  show ?thesis
    unfolding Create by (cases con) (simp_all add: create_database_def rows_of_def)
next
  case (Save query title link content)
  show ?thesis
  proof (cases "save_result con query title link content")
    case (Inl e)
    then show ?thesis unfolding Save by simp
  next
    case (Inr con')
    from save_result_appends [OF this] obtain new where "rows_of con' = rows_of con @ [new]"
      by blast
    with Inr show ?thesis unfolding Save by simp
  qed
next
  case List
  show ?thesis unfolding List by simp
qed

lemma foldl_store_step_prefix: "prefix (rows_of con) (rows_of (foldl store_step con ops))"
proof (induction ops arbitrary: con)
  case Nil
  show ?case by simp
next
  case (Cons op ops)
  have "prefix (rows_of con) (rows_of (store_step con op))"
    by (rule store_step_prefix)
  also have "prefix \<dots> (rows_of (foldl store_step (store_step con op) ops))"
    by (rule Cons.IH)
  finally show ?case by simp
qed

text \<open>
  C9. After any sequence of store operations on a fresh file: the ids of the rows
  are strictly increasing in insertion order, hence all different; listing returns
  all rows, the one inserted last first; a save that succeeds adds exactly one row
  at the end, with the given fields and an id above every id in the table, and
  leaves the rows before it as they were; whatever operations follow, the rows so
  far stay a prefix of the rows then; and initialisation always yields a table,
  changes no row, leaves an existing table as it is, and done twice equals done once.
\<close>

theorem store_invariants:
  "(\<forall>t. store_run None ops = Some t \<longrightarrow>
        sorted_wrt (<) (map row_id (rows t)) \<and> distinct (map row_id (rows t))
        \<and> get_results (store_run None ops) = Inr (rev (rows t)))
   \<and> (\<forall>query title link content con'.
        save_result (store_run None ops) query title link content = Inr con' \<longrightarrow>
        (\<exists>new. rows_of con' = rows_of (store_run None ops) @ [new]
           \<and> row_query new = query \<and> row_title new = title \<and> row_link new = link
           \<and> row_content new = content
           \<and> (\<forall>r \<in> set (rows_of (store_run None ops)). row_id r < row_id new)))
   \<and> prefix (rows_of (store_run None ops)) (rows_of (store_run None (ops @ ops')))
   \<and> create_database (store_run None ops) \<noteq> None
   \<and> create_database (create_database (store_run None ops)) = create_database (store_run None ops)
   \<and> rows_of (create_database (store_run None ops)) = rows_of (store_run None ops)
   \<and> (store_run None ops \<noteq> None \<longrightarrow> create_database (store_run None ops) = store_run None ops)"
proof (intro conjI allI impI)
  fix t assume t: "store_run None ops = Some t"
  with store_inv_run [of ops] show s: "sorted_wrt (<) (map row_id (rows t))"
    by (simp add: store_inv_def)
  then show "distinct (map row_id (rows t))"
    by (rule increasing_distinct)
  show "get_results (store_run None ops) = Inr (rev (rows t))"
    unfolding t using s by (simp add: get_results_def order_by_id_desc_rev)
next
  fix query title link content con'
  assume "save_result (store_run None ops) query title link content = Inr con'"
  then show "\<exists>new. rows_of con' = rows_of (store_run None ops) @ [new]
           \<and> row_query new = query \<and> row_title new = title \<and> row_link new = link
           \<and> row_content new = content
           \<and> (\<forall>r \<in> set (rows_of (store_run None ops)). row_id r < row_id new)"
    by (rule save_result_appends)
next
  show "prefix (rows_of (store_run None ops)) (rows_of (store_run None (ops @ ops')))"
    unfolding store_run_def foldl_append by (rule foldl_store_step_prefix)
next
  show "create_database (store_run None ops) \<noteq> None"
    by (simp add: create_database_def split: option.splits)
  show "create_database (create_database (store_run None ops)) = create_database (store_run None ops)"
    by (simp add: create_database_def split: option.splits)
  show "rows_of (create_database (store_run None ops)) = rows_of (store_run None ops)"
    by (simp add: create_database_def rows_of_def split: option.splits)
next
  assume "store_run None ops \<noteq> None"
  then show "create_database (store_run None ops) = store_run None ops"
    by (auto simp: create_database_def)
qed

theorem store_invariants_witness:
  "store_run None [Create, Save ''q'' ''t1'' ''l1'' ''c1'', Create, Save ''q'' ''t2'' ''l2'' [], List]
     = Some \<lparr>rows = [\<lparr>row_id = 1, row_query = ''q'', row_title = ''t1'', row_link = ''l1'',
                       row_content = ''c1''\<rparr>,
                     \<lparr>row_id = 2, row_query = ''q'', row_title = ''t2'', row_link = ''l2'',
                       row_content = []\<rparr>],
             seq = 2\<rparr>
   \<and> get_results
       (store_run None [Create, Save ''q'' ''t1'' ''l1'' ''c1'', Create, Save ''q'' ''t2'' ''l2'' [], List])
     = Inr [\<lparr>row_id = 2, row_query = ''q'', row_title = ''t2'', row_link = ''l2'',
             row_content = []\<rparr>,
           \<lparr>row_id = 1, row_query = ''q'', row_title = ''t1'', row_link = ''l1'',
             row_content = ''c1''\<rparr>]"
proof -
  let ?ops = "[Create, Save ''q'' ''t1'' ''l1'' ''c1'', Create, Save ''q'' ''t2'' ''l2'' [], List]"
  let ?t = "\<lparr>rows = [\<lparr>row_id = 1, row_query = ''q'', row_title = ''t1'', row_link = ''l1'',
                       row_content = ''c1''\<rparr>,
                     \<lparr>row_id = 2, row_query = ''q'', row_title = ''t2'', row_link = ''l2'',
                       row_content = []\<rparr>],
             seq = 2\<rparr>"
  have run: "store_run None ?ops = Some ?t"
    by code_simp
  from store_invariants [of ?ops, THEN conjunct1, rule_format, OF run]
  have "get_results (store_run None ?ops) = Inr (rev (rows ?t))"
    by (elim conjE)
  with run show ?thesis by simp
qed

section \<open>The stored content and its tags\<close>

lemma after_prefix_append: "after_prefix p (p @ s) = Some s"
  by (induction p) simp_all

lemma takeWhile_until: "c \<notin> set xs \<Longrightarrow> takeWhile (\<lambda>x. x \<noteq> c) (xs @ c # ys) = xs"
  by (induction xs) auto

lemma dropWhile_until: "c \<notin> set xs \<Longrightarrow> dropWhile (\<lambda>x. x \<noteq> c) (xs @ c # ys) = c # ys"
  by (induction xs) auto

lemma read_tag_value:
  assumes "CHR '']'' \<notin> set v"
  shows "read_tag key (''['' @ key @ '':'' @ v @ '']'' @ rest) = Some (v, rest)"
proof -
  have a: "after_prefix (''['' @ key @ '':'') (''['' @ key @ '':'' @ v @ '']'' @ rest)
           = Some (v @ '']'' @ rest)"
    using after_prefix_append [of "''['' @ key @ '':''" "v @ '']'' @ rest"] by simp
  have d: "dropWhile (\<lambda>c. c \<noteq> CHR '']'') (v @ '']'' @ rest) = '']'' @ rest"
    using dropWhile_until [OF assms, of rest] by simp
  have t: "takeWhile (\<lambda>c. c \<noteq> CHR '']'') (v @ '']'' @ rest) = v"
    using takeWhile_until [OF assms, of rest] by simp
  show ?thesis
    unfolding read_tag_def a using d t by simp
qed

lemma read_tags_block:
  assumes "tag_safe ty" and "tag_safe mo" and "tag_safe co" and "tag_safe cn" and "tag_safe rg"
  shows "read_tags (''[TYPE:'' @ ty @ ''][MODE:'' @ mo @ ''][COST:'' @ co
                    @ ''][COUNTRY:'' @ cn @ ''][REGION:'' @ rg @ '']'' @ [CHR 0x0A] @ raw)
         = Some (ty, mo, co, cn, rg)"
proof -
  let ?block = "''[TYPE:'' @ ty @ ''][MODE:'' @ mo @ ''][COST:'' @ co
                @ ''][COUNTRY:'' @ cn @ ''][REGION:'' @ rg @ '']''"
  have nl: "CHR 0x0A \<notin> set ?block"
    using assms by (simp add: tag_safe_def)
  have "takeWhile (\<lambda>c. c \<noteq> CHR 0x0A) (?block @ [CHR 0x0A] @ raw) = ?block"
    using takeWhile_until [OF nl, of raw] by simp
  then have line: "takeWhile (\<lambda>c. c \<noteq> CHR 0x0A)
                     (''[TYPE:'' @ ty @ ''][MODE:'' @ mo @ ''][COST:'' @ co
                      @ ''][COUNTRY:'' @ cn @ ''][REGION:'' @ rg @ '']'' @ [CHR 0x0A] @ raw)
                   = ?block"
    by simp
  have 1: "read_tag ''TYPE'' ?block
           = Some (ty, ''[MODE:'' @ mo @ ''][COST:'' @ co @ ''][COUNTRY:'' @ cn
                        @ ''][REGION:'' @ rg @ '']'')"
    using read_tag_value [of ty "''TYPE''"] assms(1) by (simp add: tag_safe_def)
  have 2: "read_tag ''MODE'' (''[MODE:'' @ mo @ ''][COST:'' @ co @ ''][COUNTRY:'' @ cn
                        @ ''][REGION:'' @ rg @ '']'')
           = Some (mo, ''[COST:'' @ co @ ''][COUNTRY:'' @ cn @ ''][REGION:'' @ rg @ '']'')"
    using read_tag_value [of mo "''MODE''"] assms(2) by (simp add: tag_safe_def)
  have 3: "read_tag ''COST'' (''[COST:'' @ co @ ''][COUNTRY:'' @ cn @ ''][REGION:'' @ rg @ '']'')
           = Some (co, ''[COUNTRY:'' @ cn @ ''][REGION:'' @ rg @ '']'')"
    using read_tag_value [of co "''COST''"] assms(3) by (simp add: tag_safe_def)
  have 4: "read_tag ''COUNTRY'' (''[COUNTRY:'' @ cn @ ''][REGION:'' @ rg @ '']'')
           = Some (cn, ''[REGION:'' @ rg @ '']'')"
    using read_tag_value [of cn "''COUNTRY''"] assms(4) by (simp add: tag_safe_def)
  have 5: "read_tag ''REGION'' (''[REGION:'' @ rg @ '']'') = Some (rg, [])"
    using read_tag_value [of rg "''REGION''" "[]"] assms(5) by (simp add: tag_safe_def)
  show ?thesis
    by (simp only: read_tags_def Let_def line 1 2 3 4 5 option.case prod.case simp_thms if_True)
qed

lemma tag_safe_labels:
  "tag_safe (classify_type text)" "tag_safe (classify_mode text)" "tag_safe (classify_cost text)"
  by (simp_all add: classify_type_def classify_mode_def classify_cost_def Let_def tag_safe_def)

lemma selectable_cases:
  assumes "selectable country region"
  shows "(country, region) \<in> set (concat (map (\<lambda>(c, rs). map (Pair c) rs) COUNTRY_REGIONS))"
  using assms
  by (auto simp: selectable_def COUNTRY_REGIONS_def split: if_splits)

lemma selectable_tag_safe:
  assumes "selectable country region"
  shows "tag_safe country" and "tag_safe region"
  using selectable_cases [OF assms]
  by (auto simp: COUNTRY_REGIONS_def tag_safe_def)

lemma save_items_contents:
  "save_items con topic items = Inr con'
   \<Longrightarrow> map row_content (rows_of con') = map row_content (rows_of con) @ map content_of items"
proof (induction items arbitrary: con)
  case Nil
  then show ?case by simp
next
  case (Cons it items)
  from Cons.prems obtain con1 where
    s: "save_result con topic (item_title it) (item_link it) (content_of it) = Inr con1"
    and r: "save_items con1 topic items = Inr con'"
    by (auto split: sum.splits)
  from save_result_appends [OF s] obtain new where
    "rows_of con1 = rows_of con @ [new]" and "row_content new = content_of it"
    by blast
  with Cons.IH [OF r] show ?case by simp
qed

lemma check_hit_round_trip:
  assumes "check_hit scrape fs r = Some it" and "tag_safe (f_country fs)" and "tag_safe (f_region fs)"
  shows "read_tags (content_of it)
         = Some (item_type it, item_mode it, item_cost it, item_country it, item_region it)"
proof -
  note f = check_hit_fields [OF assms(1)]
  have "tag_safe (item_type it)" "tag_safe (item_mode it)" "tag_safe (item_cost it)"
    "tag_safe (item_country it)" "tag_safe (item_region it)"
    using assms(2,3) by (simp_all add: f tag_safe_labels)
  then show ?thesis
    unfolding content_of_def by (rule read_tags_block)
qed

text \<open>
  C8. In a run of the page that shows items, with the country and region chosen in
  the select boxes: the run appends one row per item, in order, and the content of
  each new row is the tag block of the item, a newline, and the raw text of the item,
  which has at most 2000 characters; and reading the tags back from the content alone
  gives the item's type, mode, cost, country and region.
\<close>

theorem content_round_trip:
  assumes "find_programs get_dict get_text API_KEY file topic fs num_results
             = Inr (Showing items, con')"
    and "selectable (f_country fs) (f_region fs)"
  shows "map row_content (rows_of con') = map row_content (rows_of file) @ map content_of items
         \<and> (\<forall>it \<in> set items.
               content_of it
                 = ''[TYPE:'' @ item_type it @ ''][MODE:'' @ item_mode it @ ''][COST:'' @ item_cost it
                   @ ''][COUNTRY:'' @ item_country it @ ''][REGION:'' @ item_region it @ '']''
                   @ [CHR 0x0A] @ item_raw_text it
               \<and> length (item_raw_text it) \<le> 2000
               \<and> item_country it = f_country fs \<and> item_region it = f_region fs
               \<and> read_tags (content_of it)
                   = Some (item_type it, item_mode it, item_cost it, item_country it, item_region it))"
proof (intro conjI ballI)
  note fp = find_programs_items [OF assms(1)]
  have "rows_of (create_database file) = rows_of file"
    by (simp add: create_database_def rows_of_def split: option.splits)
  with save_items_contents [OF fp(2)]
  show "map row_content (rows_of con') = map row_content (rows_of file) @ map content_of items"
    by simp
  fix it assume "it \<in> set items"
  then obtain r where c: "check_hit (\<lambda>url. scrape_page get_text url 1500) fs r = Some it"
    unfolding fp(1) collect_items_set by blast
  show "content_of it
          = ''[TYPE:'' @ item_type it @ ''][MODE:'' @ item_mode it @ ''][COST:'' @ item_cost it
            @ ''][COUNTRY:'' @ item_country it @ ''][REGION:'' @ item_region it @ '']''
            @ [CHR 0x0A] @ item_raw_text it"
    by (simp add: content_of_def)
  show "length (item_raw_text it) \<le> 2000"
    by (simp add: check_hit_fields(1) [OF c])
  show "item_country it = f_country fs" and "item_region it = f_region fs"
    by (simp_all add: check_hit_fields [OF c])
  show "read_tags (content_of it)
          = Some (item_type it, item_mode it, item_cost it, item_country it, item_region it)"
    using c selectable_tag_safe [OF assms(2)] by (rule check_hit_round_trip)
qed

theorem content_round_trip_witness:
  "selectable ''Australia'' ''Melbourne''
   \<and> find_programs
        (\<lambda>p. Inr (Some [[''title'' \<mapsto> ''Kids Robotics Course'', ''link'' \<mapsto> ''http://x'',
                          ''snippet'' \<mapsto> ''Free online course in Melbourne'']]))
        (\<lambda>url. Inl (Exception ''404''))
        ''key'' None ''robotics for kids''
        \<lparr>f_type = ''Any'', f_mode = ''Any'', f_cost = ''Any'',
         f_country = ''Australia'', f_region = ''Melbourne''\<rparr> 8
      = Inr (Showing
               [\<lparr>item_title = ''Kids Robotics Course'', item_link = ''http://x'',
                 item_snippet = ''Free online course in Melbourne'',
                 item_type = ''Course'', item_mode = ''Online'', item_cost = ''Free'',
                 item_country = ''Australia'', item_region = ''Melbourne'',
                 item_raw_text =
                   ''Kids Robotics Course Free online course in Melbourne (scrape error: 404)''\<rparr>],
             Some \<lparr>rows =
                     [\<lparr>row_id = 1, row_query = ''robotics for kids'',
                       row_title = ''Kids Robotics Course'', row_link = ''http://x'',
                       row_content =
                         ''[TYPE:Course][MODE:Online][COST:Free][COUNTRY:Australia][REGION:Melbourne]''
                         @ [CHR 0x0A]
                         @ ''Kids Robotics Course Free online course in Melbourne (scrape error: 404)''\<rparr>],
                   seq = 1\<rparr>)
   \<and> read_tags
        (''[TYPE:Course][MODE:Online][COST:Free][COUNTRY:Australia][REGION:Melbourne]''
         @ [CHR 0x0A]
         @ ''Kids Robotics Course Free online course in Melbourne (scrape error: 404)'')
      = Some (''Course'', ''Online'', ''Free'', ''Australia'', ''Melbourne'')"
proof -
  let ?gd = "\<lambda>p::params. (Inr (Some [[''title'' \<mapsto> ''Kids Robotics Course'', ''link'' \<mapsto> ''http://x'',
                          ''snippet'' \<mapsto> ''Free online course in Melbourne'']]) :: exn + response)"
  let ?gt = "\<lambda>url::string. (Inl (Exception ''404'') :: exn + string)"
  let ?fs = "\<lparr>f_type = ''Any'', f_mode = ''Any'', f_cost = ''Any'',
              f_country = ''Australia'', f_region = ''Melbourne''\<rparr>"
  let ?it = "\<lparr>item_title = ''Kids Robotics Course'', item_link = ''http://x'',
                 item_snippet = ''Free online course in Melbourne'',
                 item_type = ''Course'', item_mode = ''Online'', item_cost = ''Free'',
                 item_country = ''Australia'', item_region = ''Melbourne'',
                 item_raw_text =
                   ''Kids Robotics Course Free online course in Melbourne (scrape error: 404)''\<rparr>"
  let ?con = "Some \<lparr>rows =
                     [\<lparr>row_id = 1, row_query = ''robotics for kids'',
                       row_title = ''Kids Robotics Course'', row_link = ''http://x'',
                       row_content =
                         ''[TYPE:Course][MODE:Online][COST:Free][COUNTRY:Australia][REGION:Melbourne]''
                         @ [CHR 0x0A]
                         @ ''Kids Robotics Course Free online course in Melbourne (scrape error: 404)''\<rparr>],
                   seq = 1\<rparr>"
  have sel: "selectable ''Australia'' ''Melbourne''"
    by code_simp
  then have sel': "selectable (f_country ?fs) (f_region ?fs)"
    by simp
  have run: "find_programs ?gd ?gt ''key'' None ''robotics for kids'' ?fs 8
             = Inr (Showing [?it], ?con)"
    by code_simp
  have c: "content_of ?it
           = ''[TYPE:Course][MODE:Online][COST:Free][COUNTRY:Australia][REGION:Melbourne]''
             @ [CHR 0x0A]
             @ ''Kids Robotics Course Free online course in Melbourne (scrape error: 404)''"
    by (simp add: content_of_def)
  have m: "?it \<in> set [?it]"
    by simp
  from content_round_trip [OF run sel', THEN conjunct2, rule_format, OF m]
  have "read_tags (content_of ?it)
        = Some (item_type ?it, item_mode ?it, item_cost ?it, item_country ?it, item_region ?it)"
    by (elim conjE)
  then have "read_tags (content_of ?it)
             = Some (''Course'', ''Online'', ''Free'', ''Australia'', ''Melbourne'')"
    by simp
  from sel run this [unfolded c] show ?thesis
    by (intro conjI)
qed

text \<open>
  The restriction to the values of the select boxes matters: for arbitrary field
  values the tag block does not determine the fields. Two items that differ in
  country and region can have the same content.
\<close>

lemma tag_block_ambiguous:
  "content_of \<lparr>item_title = [], item_link = [], item_snippet = [], item_type = ''Course'',
               item_mode = ''Online'', item_cost = ''Free'',
               item_country = ''A][REGION:B'', item_region = ''C'', item_raw_text = []\<rparr>
   = content_of \<lparr>item_title = [], item_link = [], item_snippet = [], item_type = ''Course'',
                 item_mode = ''Online'', item_cost = ''Free'',
                 item_country = ''A'', item_region = ''B][REGION:C'', item_raw_text = []\<rparr>"
  by (simp add: content_of_def)

end
